theory Spec2Isabelle
  imports Complex_Main
begin

section \<open>Strings as Python sees them\<close>

text \<open>
  Transcripts are modelled as \<open>string\<close> (lists of 8-bit characters). Python's
  \<open>str.split()\<close> and \<open>str.strip()\<close> without arguments work on whitespace; on ASCII
  text that is the characters 9 to 13, 28 to 31 and 32. The model covers text whose
  whitespace is ASCII.
\<close>

definition is_space :: "char \<Rightarrow> bool" where
  "is_space c = ((9 \<le> (of_char c :: nat) \<and> (of_char c :: nat) \<le> 13) \<or>
                 (28 \<le> (of_char c :: nat) \<and> (of_char c :: nat) \<le> 32))"

text \<open>\<open>s.split()\<close>: the maximal runs of non-whitespace characters, in order.\<close>

fun split_ws :: "string \<Rightarrow> string \<Rightarrow> string list" where
  "split_ws cur [] = (if cur = [] then [] else [cur])"
| "split_ws cur (c # cs) =
     (if is_space c
      then (if cur = [] then split_ws [] cs else cur # split_ws [] cs)
      else split_ws (cur @ [c]) cs)"

definition py_split :: "string \<Rightarrow> string list" where
  "py_split s = split_ws [] s"

text \<open>\<open>sep.join(ws)\<close>.\<close>

fun py_join :: "string \<Rightarrow> string list \<Rightarrow> string" where
  "py_join sep [] = []"
| "py_join sep [w] = w"
| "py_join sep (w # v # ws) = w @ sep @ py_join sep (v # ws)"

text \<open>\<open>s.strip()\<close>: whitespace removed at both ends.\<close>

definition py_strip :: "string \<Rightarrow> string" where
  "py_strip s = rev (dropWhile is_space (rev (dropWhile is_space s)))"

text \<open>A string with no leading and no trailing whitespace.\<close>

definition trimmed :: "string \<Rightarrow> bool" where
  "trimmed s = (case s of [] \<Rightarrow> True | c # cs \<Rightarrow> \<not> is_space c \<and> \<not> is_space (last s))"

section \<open>Overlap reconciler: \<open>clean_combined_transcription\<close>\<close>

text \<open>
  \<open>xs[-k:]\<close> of Python: the last \<open>k\<close> elements for \<open>0 < k\<close> (the whole list when
  \<open>k\<close> exceeds its length), and the whole list for \<open>k = 0\<close>.
\<close>

definition py_suffix :: "nat \<Rightarrow> 'a list \<Rightarrow> 'a list" where
  "py_suffix k xs = (if k = 0 then xs else drop (length xs - k) xs)"

text \<open>
  The inner loop \<open>for overlap_len in range(max_overlap, 0, -1)\<close>: the first (largest)
  length at which the suffix of the combined words equals the prefix of the current
  words, and 0 when there is none.
\<close>

fun find_overlap :: "string list \<Rightarrow> string list \<Rightarrow> nat \<Rightarrow> nat" where
  "find_overlap combined_words current_words 0 = 0"
| "find_overlap combined_words current_words (Suc k) =
     (if py_suffix (Suc k) combined_words = take (Suc k) current_words
      then Suc k
      else find_overlap combined_words current_words k)"

text \<open>One iteration of the outer loop: \<open>combined\<close> after \<open>current_transcription\<close>.\<close>

definition merge_step :: "string \<Rightarrow> string \<Rightarrow> string" where
  "merge_step combined current_transcription =
     (let combined_words = py_split combined;
          current_words = py_split current_transcription;
          max_overlap = min 10 (min (length combined_words) (length current_words));
          overlap_found = find_overlap combined_words current_words max_overlap
      in if 0 < overlap_found
         then combined @ '' '' @ py_join '' '' (drop overlap_found current_words)
         else combined @ '' '' @ current_transcription)"

fun clean_combined_transcription :: "string list \<Rightarrow> string" where
  "clean_combined_transcription [] = []"
| "clean_combined_transcription [t] = t"
| "clean_combined_transcription (t # u # ts) = py_strip (foldl merge_step t (u # ts))"

section \<open>Segmentation: the chunking loop of the long tiers\<close>

text \<open>
  A waveform is the list of its samples. The chunking loop of \<open>transcribe_long_audio\<close>
  and of \<open>transcribe_very_long_audio\<close> is the same code with two constants changed, so
  it is modelled once, with \<open>chunk_samples\<close> and \<open>overlap_samples\<close> as parameters.
  The source appends only the materialised chunk; the model keeps beside it the range
  \<open>[seg_start, seg_end)\<close> it was cut from, which is what the claims speak about.
\<close>

type_synonym sample = rat

record segment =
  seg_start :: nat
  seg_end :: nat
  samples :: "sample list"

text \<open>
  One pass of the loop body at \<open>start\<close>: \<open>end = min(start + chunk_samples, len)\<close>, the
  slice \<open>audio_array[start:end]\<close>, and \<open>np.pad\<close> with zeros at the tail when the slice
  is short and it is not the first chunk.
\<close>

definition chunk_end :: "nat \<Rightarrow> sample list \<Rightarrow> nat \<Rightarrow> nat" where
  "chunk_end chunk_samples audio_array start =
     min (start + chunk_samples) (length audio_array)"

definition py_slice :: "'a list \<Rightarrow> nat \<Rightarrow> nat \<Rightarrow> 'a list" where
  "py_slice xs i j = take (j - i) (drop i xs)"

definition pad_chunk :: "nat \<Rightarrow> nat \<Rightarrow> sample list \<Rightarrow> sample list" where
  "pad_chunk chunk_samples start chunk =
     (if length chunk < chunk_samples \<and> 0 < start
      then chunk @ replicate (chunk_samples - length chunk) 0
      else chunk)"

definition make_chunk :: "nat \<Rightarrow> sample list \<Rightarrow> nat \<Rightarrow> segment" where
  "make_chunk chunk_samples audio_array start =
     \<lparr> seg_start = start,
       seg_end = chunk_end chunk_samples audio_array start,
       samples = pad_chunk chunk_samples start
                   (py_slice audio_array start (chunk_end chunk_samples audio_array start)) \<rparr>"

text \<open>
  The \<open>while start < len(audio_array)\<close> loop. With \<open>chunk_samples = overlap_samples\<close>
  (a sampling rate of 0) the loop never advances; not returning is the value \<open>None\<close>.
  The subtraction \<open>end - overlap_samples\<close> is reached only with
  \<open>end = start + chunk_samples\<close>, so with \<open>overlap_samples \<le> chunk_samples\<close>, as in
  both callers, it never falls below zero.
\<close>

partial_function (option) chunk_loop ::
  "nat \<Rightarrow> nat \<Rightarrow> sample list \<Rightarrow> nat \<Rightarrow> segment list \<Rightarrow> segment list option" where
  "chunk_loop chunk_samples overlap_samples audio_array start chunks =
     (if start < length audio_array
      then (if length audio_array \<le> chunk_end chunk_samples audio_array start
            then Some (chunks @ [make_chunk chunk_samples audio_array start])
            else chunk_loop chunk_samples overlap_samples audio_array
                   (chunk_end chunk_samples audio_array start - overlap_samples)
                   (chunks @ [make_chunk chunk_samples audio_array start]))
      else Some chunks)"

declare chunk_loop.simps [code]

text \<open>The two instances: 30 s windows with 2 s overlap, 20 s windows with 1 s overlap.\<close>

definition long_chunks :: "sample list \<Rightarrow> nat \<Rightarrow> segment list option" where
  "long_chunks audio_array sampling_rate =
     chunk_loop (30 * sampling_rate) (2 * sampling_rate) audio_array 0 []"

definition very_long_chunks :: "sample list \<Rightarrow> nat \<Rightarrow> segment list option" where
  "very_long_chunks audio_array sampling_rate =
     chunk_loop (20 * sampling_rate) (1 * sampling_rate) audio_array 0 []"

text \<open>
  What the segmentation claim asks of a plan \<open>segs\<close> for a waveform: the ranges start at
  0, end at the waveform's end, every sample index lies in some range, every range is
  non-empty, every consecutive pair overlaps by exactly \<open>overlap_samples\<close>, and every
  chunk holds the samples of its range, followed by zeros only.
\<close>

definition covers :: "sample list \<Rightarrow> segment list \<Rightarrow> bool" where
  "covers audio_array segs =
     (\<forall>i < length audio_array. \<exists>k < length segs.
         seg_start (segs ! k) \<le> i \<and> i < seg_end (segs ! k))"

definition exact_overlaps :: "nat \<Rightarrow> segment list \<Rightarrow> bool" where
  "exact_overlaps overlap_samples segs =
     (\<forall>k. Suc k < length segs \<longrightarrow>
         seg_start (segs ! Suc k) + overlap_samples = seg_end (segs ! k))"

definition chunks_faithful :: "nat \<Rightarrow> sample list \<Rightarrow> segment list \<Rightarrow> bool" where
  "chunks_faithful chunk_samples audio_array segs =
     (\<forall>k < length segs.
         seg_start (segs ! k) < seg_end (segs ! k) \<and>
         seg_end (segs ! k) \<le> length audio_array \<and>
         (\<exists>n. samples (segs ! k) =
                py_slice audio_array (seg_start (segs ! k)) (seg_end (segs ! k)) @ replicate n 0 \<and>
              (0 < n \<longrightarrow> Suc k = length segs \<and> 0 < seg_start (segs ! k) \<and>
                         length (samples (segs ! k)) = chunk_samples)))"

definition plan_ok :: "nat \<Rightarrow> nat \<Rightarrow> sample list \<Rightarrow> segment list \<Rightarrow> bool" where
  "plan_ok chunk_samples overlap_samples audio_array segs =
     ((audio_array \<noteq> [] \<longrightarrow>
         segs \<noteq> [] \<and> seg_start (hd segs) = 0 \<and> seg_end (last segs) = length audio_array) \<and>
      covers audio_array segs \<and>
      exact_overlaps overlap_samples segs \<and>
      chunks_faithful chunk_samples audio_array segs)"

text \<open>
  The plans the loop can produce from \<open>start\<close>, as a recursive predicate: every element
  is the chunk cut at the current start, and the next start is \<open>start + chunk_samples -
  overlap_samples\<close> as long as the window does not reach the waveform's end.
\<close>

fun chain :: "nat \<Rightarrow> nat \<Rightarrow> sample list \<Rightarrow> nat \<Rightarrow> segment list \<Rightarrow> bool" where
  "chain cs ov a s [] = False"
| "chain cs ov a s [g] = (g = make_chunk cs a s \<and> s < length a \<and> length a \<le> s + cs)"
| "chain cs ov a s (g # h # rest) =
     (g = make_chunk cs a s \<and> s + cs < length a \<and> chain cs ov a (s + cs - ov) (h # rest))"

section \<open>Values, errors and the outside world\<close>

text \<open>
  Parsed JSON, as Python's \<open>response.json()\<close> hands it over. \<open>JNull\<close> is Python's
  \<open>None\<close>; an object keeps its members in the order of the text (the last of two equal
  keys wins, as in Python's parser); numbers are rationals.
\<close>

datatype json =
    JNull
  | JBool bool
  | JNum rat
  | JStr string
  | JArr "json list"
  | JObj "(string \<times> json) list"

text \<open>Python's truth value of a parsed value (\<open>if access_token:\<close>, \<open>if result:\<close>).\<close>

fun truthy :: "json \<Rightarrow> bool" where
  "truthy JNull = False"
| "truthy (JBool b) = b"
| "truthy (JNum r) = (r \<noteq> 0)"
| "truthy (JStr s) = (s \<noteq> [])"
| "truthy (JArr xs) = (xs \<noteq> [])"
| "truthy (JObj kvs) = (kvs \<noteq> [])"

text \<open>
  Exceptions. The detail of an \<open>HTTPException\<close> built by an f-string is kept as its
  parts (literal text, a number, the \<open>str()\<close> of the exception it wraps), so that the
  model does not depend on how a library renders an exception.
\<close>

datatype exn =
    HTTPException nat "part list"
  | RequestException string
  | HTTPError nat
  | PyException string
and part =
    Lit string
  | Dec nat
  | StrOf exn

text \<open>\<open>except requests.exceptions.RequestException\<close>: \<open>HTTPError\<close> is a subclass.\<close>

fun is_request_exception :: "exn \<Rightarrow> bool" where
  "is_request_exception (RequestException m) = True"
| "is_request_exception (HTTPError st) = True"
| "is_request_exception e = False"

text \<open>
  The endpoints' and the transcription's handler pair
  \<open>except HTTPException: raise\<close> / \<open>except Exception as e: raise HTTPException(500, prefix + str(e))\<close>.
\<close>

fun reraise :: "string \<Rightarrow> exn \<Rightarrow> exn" where
  "reraise prefix (HTTPException st d) = HTTPException st d"
| "reraise prefix e = HTTPException 500 [Lit prefix, StrOf e]"

text \<open>
  What \<open>requests.post\<close> does: it raises a \<open>RequestException\<close> (no connection, timeout),
  or it returns a response with a status code, a body text and the outcome of
  \<open>response.json()\<close> (which raises on a body that is not JSON).
\<close>

datatype http_reply =
    ConnectionFailed string
  | Response nat string "exn + json"

text \<open>The decoding parameters that differ between the tiers.\<close>

record gen_params =
  max_length :: nat
  num_beams :: nat
  no_repeat_ngram_size :: nat

text \<open>
  The payload of a chat call. The two long prompt texts are kept symbolic: the intent
  prompt carries the transcribed text, the resolution prompt the template key, the intent
  and the original query. The decoding parameters other than \<open>max_new_tokens\<close> are the
  same constants in both calls and are left out.
\<close>

datatype prompt =
    IntentPrompt string
  | ResolutionPrompt string string string

record payload =
  messages :: prompt
  max_new_tokens :: nat
  model_id :: string
  project_id :: string

record upload =
  filename :: string
  content :: string

text \<open>
  The collaborators the code consumes, as oracles. A network or model call may answer
  differently each time, so each oracle takes the number of calls made before it.
  \<open>asr\<close> stands for processor, \<open>model.generate\<close> and \<open>batch_decode(...)[0]\<close>
  together; \<open>librosa_pipeline\<close> for the body of \<open>preprocess_audio\<close> before its return.
  Writing the temporary file is taken to succeed.
\<close>

record env =
  time_at :: "nat \<Rightarrow> rat"
  iam_post :: "nat \<Rightarrow> string \<Rightarrow> http_reply"
  wx_post :: "nat \<Rightarrow> json \<Rightarrow> payload \<Rightarrow> http_reply"
  asr :: "nat \<Rightarrow> sample list \<Rightarrow> nat \<Rightarrow> gen_params \<Rightarrow> exn + string"
  from_pretrained :: "exn option"
  librosa_pipeline :: "string \<Rightarrow> exn + sample list"
  API_KEY :: "string option"
  PROJECT_ID :: "string option"
  MODEL_ID :: "string option"

text \<open>
  The process state: the two global caches, and a log of every call made to a
  collaborator (what was sent, in order), so that "no call is attempted" can be stated.
\<close>

record world =
  token :: json
  expiry :: rat
  whisper_loaded :: bool
  time_reads :: nat
  iam_log :: "string list"
  wx_log :: "(json \<times> payload) list"
  asr_log :: "(sample list \<times> nat \<times> gen_params) list"
  preprocess_log :: "string list"
  sleeps :: nat

section \<open>Credential cache: \<open>get_access_token\<close>\<close>

text \<open>\<open>d.get(k, default)\<close> on a parsed object.\<close>

definition dict_get :: "(string \<times> json) list \<Rightarrow> string \<Rightarrow> json \<Rightarrow> json" where
  "dict_get kvs k d = (case map_of (rev kvs) k of None \<Rightarrow> d | Some v \<Rightarrow> v)"

text \<open>
  \<open>current_time + expires_in\<close>: defined for a number and for a boolean (an \<open>int\<close> in
  Python), a \<open>TypeError\<close> for everything else.
\<close>

fun as_number :: "json \<Rightarrow> rat option" where
  "as_number (JNum r) = Some r"
| "as_number (JBool b) = Some (if b then 1 else 0)"
| "as_number j = None"

definition token_error :: "exn \<Rightarrow> exn" where
  "token_error e = HTTPException 500 [Lit ''Error getting access token: '', StrOf e]"

text \<open>
  \<open>response.raise_for_status()\<close> raises for the statuses 400 to 599 and for no other.
  Line 111 stores the token before line 112 computes the expiry, so an \<open>expires_in\<close>
  that is not a number leaves the new token with the old expiry.
\<close>

definition get_access_token ::
  "env \<Rightarrow> string \<Rightarrow> bool \<Rightarrow> world \<Rightarrow> (exn + json) \<times> world" where
  "get_access_token ev api_key force_refresh w =
     (let current_time = time_at ev (time_reads w);
          w0 = w\<lparr>time_reads := Suc (time_reads w)\<rparr>
      in if \<not> force_refresh \<and> truthy (token w) \<and> current_time < expiry w
         then (Inr (token w), w0)
         else
           (let w1 = w0\<lparr>iam_log := iam_log w0 @ [api_key]\<rparr>
            in case iam_post ev (length (iam_log w)) api_key of
                 ConnectionFailed m \<Rightarrow> (Inl (token_error (RequestException m)), w1)
               | Response st body parsed \<Rightarrow>
                   if 400 \<le> st \<and> st < 600
                   then (Inl (token_error (HTTPError st)), w1)
                   else
                     (case parsed of
                        Inl e \<Rightarrow> (Inl (token_error e), w1)
                      | Inr (JObj token_data) \<Rightarrow>
                          (let access_token = dict_get token_data ''access_token'' JNull;
                               expires_in = dict_get token_data ''expires_in'' (JNum 3600)
                           in if truthy access_token
                              then (case as_number expires_in of
                                      None \<Rightarrow>
                                        (Inl (token_error (PyException ''TypeError'')),
                                         w1\<lparr>token := access_token\<rparr>)
                                    | Some e \<Rightarrow>
                                        (Inr access_token,
                                         w1\<lparr>token := access_token,
                                            expiry := current_time + e - 300\<rparr>))
                              else (Inr JNull, w1))
                      | Inr other \<Rightarrow>
                          (Inl (token_error (PyException ''AttributeError'')), w1))))"

section \<open>Resilient client: \<open>make_watsonx_request\<close>\<close>

text \<open>
  One pass of the body of \<open>for attempt in range(max_retries + 1)\<close>: it returns, raises,
  or goes on to the next attempt (\<open>continue\<close>, or the end of the \<open>except\<close> branch after
  \<open>time.sleep(1)\<close>). An \<open>HTTPException\<close> is not a \<open>RequestException\<close>, so the ones
  raised in the \<open>try\<close> block leave the function.
\<close>

datatype control = Finished "exn + json" | NextAttempt

definition on_request_exception ::
  "nat \<Rightarrow> nat \<Rightarrow> exn \<Rightarrow> world \<Rightarrow> control \<times> world" where
  "on_request_exception max_retries attempt e w =
     (if attempt = max_retries
      then (Finished (Inl (HTTPException 500
              [Lit ''Failed to connect to WatsonX API after '', Dec (max_retries + 1),
               Lit '' attempts: '', StrOf e])), w)
      else (NextAttempt, w\<lparr>sleeps := sleeps w + 1\<rparr>))"

definition watsonx_attempt ::
  "env \<Rightarrow> payload \<Rightarrow> string \<Rightarrow> nat \<Rightarrow> nat \<Rightarrow> world \<Rightarrow> control \<times> world" where
  "watsonx_attempt ev pl api_key max_retries attempt w =
     (case get_access_token ev api_key (0 < attempt) w of
        (Inl e, w1) \<Rightarrow> (Finished (Inl e), w1)
      | (Inr access_token, w1) \<Rightarrow>
          if \<not> truthy access_token
          then (Finished (Inl (HTTPException 500 [Lit ''Failed to obtain access token''])), w1)
          else
            (let w2 = w1\<lparr>wx_log := wx_log w1 @ [(access_token, pl)]\<rparr>
             in case wx_post ev (length (wx_log w1)) access_token pl of
                  ConnectionFailed m \<Rightarrow>
                    on_request_exception max_retries attempt (RequestException m) w2
                | Response st body parsed \<Rightarrow>
                    if st = 200
                    then (case parsed of
                            Inr j \<Rightarrow> (Finished (Inr j), w2)
                          | Inl e \<Rightarrow>
                              if is_request_exception e
                              then on_request_exception max_retries attempt e w2
                              else (Finished (Inl e), w2))
                    else if st = 401 \<and> attempt < max_retries
                    then (NextAttempt, w2\<lparr>token := JNull, expiry := 0\<rparr>)
                    else (Finished (Inl (HTTPException st
                            [Lit ''WatsonX API Error: '', Lit body])), w2)))"

function watsonx_loop ::
  "env \<Rightarrow> payload \<Rightarrow> string \<Rightarrow> nat \<Rightarrow> nat \<Rightarrow> world \<Rightarrow> (exn + json) \<times> world" where
  "watsonx_loop ev pl api_key max_retries attempt w =
     (if attempt < max_retries + 1
      then (case watsonx_attempt ev pl api_key max_retries attempt w of
              (Finished r, w') \<Rightarrow> (r, w')
            | (NextAttempt, w') \<Rightarrow> watsonx_loop ev pl api_key max_retries (attempt + 1) w')
      else (Inr JNull, w))"
  by pat_completeness auto
termination
  by (relation "measure (\<lambda>(ev, pl, api_key, max_retries, attempt, w). max_retries + 1 - attempt)")
     auto

definition make_watsonx_request ::
  "env \<Rightarrow> payload \<Rightarrow> string \<Rightarrow> nat \<Rightarrow> world \<Rightarrow> (exn + json) \<times> world" where
  "make_watsonx_request ev pl api_key max_retries w =
     watsonx_loop ev pl api_key max_retries 0 w"

text \<open>The state after one more chat call with \<open>tok\<close> and \<open>pl\<close> has been logged.\<close>

definition posted :: "world \<Rightarrow> json \<Rightarrow> payload \<Rightarrow> world" where
  "posted w1 tok pl = w1\<lparr>wx_log := wx_log w1 @ [(tok, pl)]\<rparr>"

text \<open>
  The replies after which the loop goes on while attempts remain: a 401, and whatever makes
  the \<open>try\<close> block raise a \<open>RequestException\<close>, which is a failed call or a status-200
  response whose \<open>json()\<close> raises one.
\<close>

fun retried_reply :: "http_reply \<Rightarrow> bool" where
  "retried_reply (ConnectionFailed m) = True"
| "retried_reply (Response st body (Inl e)) = (st = 401 \<or> (st = 200 \<and> is_request_exception e))"
| "retried_reply (Response st body (Inr j)) = (st = 401)"

definition connect_error :: "nat \<Rightarrow> exn \<Rightarrow> exn" where
  "connect_error max_retries e =
     HTTPException 500
       [Lit ''Failed to connect to WatsonX API after '', Dec (max_retries + 1),
        Lit '' attempts: '', StrOf e]"

section \<open>Transcription\<close>

text \<open>\<open>load_whisper_model\<close>: the processor and the model are loaded once and cached.\<close>

definition load_whisper_model :: "env \<Rightarrow> world \<Rightarrow> (exn + unit) \<times> world" where
  "load_whisper_model ev w =
     (if \<not> whisper_loaded w
      then (case from_pretrained ev of
              Some e \<Rightarrow> (Inl (HTTPException 500 [Lit ''Error loading Whisper model: '', StrOf e]), w)
            | None \<Rightarrow> (Inr (), w\<lparr>whisper_loaded := True\<rparr>))
      else (Inr (), w))"

text \<open>\<open>preprocess_audio\<close>: whatever the native rate, it returns the rate 16000.\<close>

definition preprocess_audio ::
  "env \<Rightarrow> string \<Rightarrow> world \<Rightarrow> (exn + sample list \<times> nat) \<times> world" where
  "preprocess_audio ev bytes w =
     (let w' = w\<lparr>preprocess_log := preprocess_log w @ [bytes]\<rparr>
      in case librosa_pipeline ev bytes of
           Inl e \<Rightarrow> (Inl (HTTPException 500 [Lit ''Error preprocessing audio: '', StrOf e]), w')
         | Inr audio \<Rightarrow> (Inr (audio, 16000), w'))"

definition short_params :: gen_params where
  "short_params = \<lparr> max_length = 448, num_beams = 5, no_repeat_ngram_size = 3 \<rparr>"

definition very_long_params :: gen_params where
  "very_long_params = \<lparr> max_length = 224, num_beams = 3, no_repeat_ngram_size = 2 \<rparr>"

definition transcribe_short_audio ::
  "env \<Rightarrow> sample list \<Rightarrow> nat \<Rightarrow> world \<Rightarrow> (exn + string) \<times> world" where
  "transcribe_short_audio ev audio_array sampling_rate w =
     (let w' = w\<lparr>asr_log := asr_log w @ [(audio_array, sampling_rate, short_params)]\<rparr>
      in case asr ev (length (asr_log w)) audio_array sampling_rate short_params of
           Inl e \<Rightarrow> (Inl (HTTPException 500 [Lit ''Short audio transcription failed: '', StrOf e]), w')
         | Inr transcription \<Rightarrow> (Inr (py_strip transcription), w'))"

text \<open>
  The loop \<open>for i, chunk in enumerate(chunks)\<close> of the two long tiers: a chunk whose
  transcription raises is skipped (\<open>continue\<close>), one whose stripped text is empty is not
  appended.
\<close>

fun transcribe_chunks ::
  "env \<Rightarrow> nat \<Rightarrow> gen_params \<Rightarrow> sample list list \<Rightarrow> string list \<Rightarrow> world
     \<Rightarrow> string list \<times> world" where
  "transcribe_chunks ev sampling_rate params [] all_transcriptions w = (all_transcriptions, w)"
| "transcribe_chunks ev sampling_rate params (chunk # chunks) all_transcriptions w =
     (let w' = w\<lparr>asr_log := asr_log w @ [(chunk, sampling_rate, params)]\<rparr>
      in case asr ev (length (asr_log w)) chunk sampling_rate params of
           Inl chunk_error \<Rightarrow> transcribe_chunks ev sampling_rate params chunks all_transcriptions w'
         | Inr chunk_transcription \<Rightarrow>
             if py_strip chunk_transcription \<noteq> []
             then transcribe_chunks ev sampling_rate params chunks
                    (all_transcriptions @ [py_strip chunk_transcription]) w'
             else transcribe_chunks ev sampling_rate params chunks all_transcriptions w')"

definition no_chunks_error :: exn where
  "no_chunks_error = HTTPException 500 [Lit ''No successful chunk transcriptions'']"

text \<open>
  What follows the chunking in both long tiers. The \<open>HTTPException\<close> raised for an empty
  result is raised inside the function's own \<open>try\<close>, whose \<open>except Exception\<close> wraps it
  once more under the tier's prefix.
\<close>

definition transcribe_plan ::
  "env \<Rightarrow> string \<Rightarrow> nat \<Rightarrow> gen_params \<Rightarrow> segment list \<Rightarrow> world
     \<Rightarrow> (exn + string) \<times> world" where
  "transcribe_plan ev prefix sampling_rate params segs w =
     (case transcribe_chunks ev sampling_rate params (map samples segs) [] w of
        (all_transcriptions, w') \<Rightarrow>
          if all_transcriptions = []
          then (Inl (HTTPException 500 [Lit prefix, StrOf no_chunks_error]), w')
          else (Inr (clean_combined_transcription all_transcriptions), w'))"

definition transcribe_long_audio ::
  "env \<Rightarrow> sample list \<Rightarrow> nat \<Rightarrow> world \<Rightarrow> ((exn + string) \<times> world) option" where
  "transcribe_long_audio ev audio_array sampling_rate w =
     (case long_chunks audio_array sampling_rate of
        None \<Rightarrow> None
      | Some segs \<Rightarrow>
          Some (transcribe_plan ev ''Long audio transcription failed: ''
                  sampling_rate short_params segs w))"

definition transcribe_very_long_audio ::
  "env \<Rightarrow> sample list \<Rightarrow> nat \<Rightarrow> world \<Rightarrow> ((exn + string) \<times> world) option" where
  "transcribe_very_long_audio ev audio_array sampling_rate w =
     (case very_long_chunks audio_array sampling_rate of
        None \<Rightarrow> None
      | Some segs \<Rightarrow>
          Some (transcribe_plan ev ''Very long audio transcription failed: ''
                  sampling_rate very_long_params segs w))"

text \<open>
  \<open>transcribe_audio_file\<close>. The duration is \<open>len(audio_array) / sampling_rate\<close>, a
  float division in the source; it is taken as the exact quotient (the two agree in every
  comparison with 30 and with 600 for any length a list can have).
\<close>

definition dispatch_by_duration ::
  "env \<Rightarrow> sample list \<Rightarrow> nat \<Rightarrow> world \<Rightarrow> ((exn + string) \<times> world) option" where
  "dispatch_by_duration ev audio_array sampling_rate w =
     (let duration = (of_nat (length audio_array) :: rat) / of_nat sampling_rate
      in if 600 < duration
         then transcribe_very_long_audio ev audio_array sampling_rate w
         else if 30 < duration
         then transcribe_long_audio ev audio_array sampling_rate w
         else Some (transcribe_short_audio ev audio_array sampling_rate w))"

definition critical :: "exn \<Rightarrow> exn" where
  "critical e = reraise ''Critical error in transcription: '' e"

definition transcribe_audio_file ::
  "env \<Rightarrow> upload \<Rightarrow> world \<Rightarrow> ((exn + string) \<times> world) option" where
  "transcribe_audio_file ev audio_file w =
     (if 100 * 1024 * 1024 < length (content audio_file)
      then Some (Inl (HTTPException 413
                   [Lit ''File too large. Please upload files smaller than 100MB.'']), w)
      else
        (case load_whisper_model ev w of
           (Inl e, w1) \<Rightarrow> Some (Inl (critical e), w1)
         | (Inr u, w1) \<Rightarrow>
             (case preprocess_audio ev (content audio_file) w1 of
                (Inl e, w2) \<Rightarrow> Some (Inl (critical e), w2)
              | (Inr (audio_array, sampling_rate), w2) \<Rightarrow>
                  (case dispatch_by_duration ev audio_array sampling_rate w2 of
                     None \<Rightarrow> None
                   | Some (Inl e, w3) \<Rightarrow> Some (Inl (critical e), w3)
                   | Some (Inr transcription, w3) \<Rightarrow> Some (Inr transcription, w3)))))"

text \<open>
  The tiers as the specification names them, and the transcription each one stands for.
\<close>

datatype tier = SHORT | LONG | VERY_LONG

definition tier_of :: "rat \<Rightarrow> tier" where
  "tier_of duration =
     (if duration \<le> 30 then SHORT else if duration \<le> 600 then LONG else VERY_LONG)"

fun run_tier ::
  "tier \<Rightarrow> env \<Rightarrow> sample list \<Rightarrow> nat \<Rightarrow> world \<Rightarrow> ((exn + string) \<times> world) option" where
  "run_tier SHORT ev audio_array sampling_rate w =
     Some (transcribe_short_audio ev audio_array sampling_rate w)"
| "run_tier LONG ev audio_array sampling_rate w =
     transcribe_long_audio ev audio_array sampling_rate w"
| "run_tier VERY_LONG ev audio_array sampling_rate w =
     transcribe_very_long_audio ev audio_array sampling_rate w"

text \<open>
  The chunks that survive a batch, in index order: the stripped text of every chunk whose
  transcription neither raises nor is blank. The \<open>i\<close>-th chunk of the batch is the
  \<open>(k + i)\<close>-th call to the model, \<open>k\<close> calls having been made before.
\<close>

definition chunk_text :: "env \<Rightarrow> nat \<Rightarrow> gen_params \<Rightarrow> nat \<times> sample list \<Rightarrow> string option" where
  "chunk_text ev sampling_rate params ic =
     (case asr ev (fst ic) (snd ic) sampling_rate params of
        Inl e \<Rightarrow> None
      | Inr t \<Rightarrow> if py_strip t = [] then None else Some (py_strip t))"

definition survivors ::
  "env \<Rightarrow> nat \<Rightarrow> gen_params \<Rightarrow> nat \<Rightarrow> sample list list \<Rightarrow> string list" where
  "survivors ev sampling_rate params k chunks =
     List.map_filter (chunk_text ev sampling_rate params) (enumerate k chunks)"

text \<open>
  The outcome the claim about failing chunks describes for a batch: the error when every
  chunk of the batch fails, and otherwise the reconciled text of the survivors.
\<close>

definition batch_outcome ::
  "env \<Rightarrow> string \<Rightarrow> nat \<Rightarrow> gen_params \<Rightarrow> nat \<Rightarrow> sample list list \<Rightarrow> exn + string" where
  "batch_outcome ev prefix sampling_rate params k chunks =
     (if list_all (\<lambda>ic. chunk_text ev sampling_rate params ic = None) (enumerate k chunks)
      then Inl (HTTPException 500 [Lit prefix, StrOf no_chunks_error])
      else Inr (clean_combined_transcription (survivors ev sampling_rate params k chunks)))"

text \<open>The state after a batch: one call to the model per chunk, in order.\<close>

definition after_batch :: "nat \<Rightarrow> gen_params \<Rightarrow> sample list list \<Rightarrow> world \<Rightarrow> world" where
  "after_batch sampling_rate params chunks w =
     w\<lparr>asr_log := asr_log w @ map (\<lambda>c. (c, sampling_rate, params)) chunks\<rparr>"

section \<open>Endpoints\<close>

text \<open>
  \<open>str.lower()\<close> on ASCII letters and \<open>str.endswith\<close>. No character outside ASCII
  lowers to one of the characters of \<open>.mp3\<close>, so for the suffix test the ASCII rule is
  the whole of it.
\<close>

definition lower_char :: "char \<Rightarrow> char" where
  "lower_char c =
     (if 65 \<le> (of_char c :: nat) \<and> (of_char c :: nat) \<le> 90
      then char_of ((of_char c :: nat) + 32) else c)"

definition py_lower :: "string \<Rightarrow> string" where
  "py_lower s = map lower_char s"

definition py_endswith :: "string \<Rightarrow> string \<Rightarrow> bool" where
  "py_endswith s suffix =
     (length suffix \<le> length s \<and> drop (length s - length suffix) s = suffix)"

text \<open>The truth value of what \<open>os.getenv\<close> returns: set, and not empty.\<close>

fun configured :: "string option \<Rightarrow> bool" where
  "configured None = False"
| "configured (Some s) = (s \<noteq> [])"

fun getenv_str :: "string option \<Rightarrow> string" where
  "getenv_str None = []"
| "getenv_str (Some s) = s"

text \<open>
  \<open>result.get("choices", [{}])[0].get("message", {}).get("content", "").strip()\<close>, one
  step at a time; each step raises on a value of the wrong shape.
\<close>

fun py_get :: "json \<Rightarrow> string \<Rightarrow> json \<Rightarrow> exn + json" where
  "py_get (JObj kvs) k d = Inr (dict_get kvs k d)"
| "py_get j k d = Inl (PyException ''AttributeError'')"

fun py_first :: "json \<Rightarrow> exn + json" where
  "py_first (JArr []) = Inl (PyException ''IndexError'')"
| "py_first (JArr (x # xs)) = Inr x"
| "py_first (JStr []) = Inl (PyException ''IndexError'')"
| "py_first (JStr (c # cs)) = Inr (JStr [c])"
| "py_first (JObj kvs) = Inl (PyException ''KeyError'')"
| "py_first j = Inl (PyException ''TypeError'')"

fun py_strip_value :: "json \<Rightarrow> exn + string" where
  "py_strip_value (JStr s) = Inr (py_strip s)"
| "py_strip_value j = Inl (PyException ''AttributeError'')"

definition chat_content :: "json \<Rightarrow> exn + string" where
  "chat_content result =
     (case py_get result ''choices'' (JArr [JObj []]) of
        Inl e \<Rightarrow> Inl e
      | Inr choices \<Rightarrow>
          (case py_first choices of
             Inl e \<Rightarrow> Inl e
           | Inr choice \<Rightarrow>
               (case py_get choice ''message'' (JObj []) of
                  Inl e \<Rightarrow> Inl e
                | Inr message \<Rightarrow>
                    (case py_get message ''content'' (JStr []) of
                       Inl e \<Rightarrow> Inl e
                     | Inr c \<Rightarrow> py_strip_value c))))"

datatype transcription_response = TranscriptionResponse string bool string
datatype intent_response = IntentResponse string bool string
datatype resolution_response = ResolutionResponse string bool string
datatype full_analysis_response = FullAnalysisResponse string string string bool string

definition missing_env :: exn where
  "missing_env = HTTPException 500
     [Lit ''Missing required environment variables (API_KEY, PROJECT_ID, MODEL_ID)'']"

definition not_mp3 :: exn where
  "not_mp3 = HTTPException 400 [Lit ''Only MP3 files are supported'']"

definition transcribe_audio_endpoint ::
  "env \<Rightarrow> upload \<Rightarrow> world \<Rightarrow> ((exn + transcription_response) \<times> world) option" where
  "transcribe_audio_endpoint ev file w =
     (if \<not> py_endswith (py_lower (filename file)) ''.mp3''
      then Some (Inl not_mp3, w)
      else (case transcribe_audio_file ev file w of
              None \<Rightarrow> None
            | Some (Inl e, w') \<Rightarrow> Some (Inl (reraise ''Transcription failed: '' e), w')
            | Some (Inr transcription, w') \<Rightarrow>
                Some (Inr (TranscriptionResponse transcription True
                             ''Transcription completed successfully''), w')))"

text \<open>
  \<open>recognize_intent_endpoint\<close> on the dictionary \<open>{"text": text_content}\<close>, which is what
  the full analysis hands it.
\<close>

definition recognize_intent_endpoint ::
  "env \<Rightarrow> string \<Rightarrow> world \<Rightarrow> (exn + intent_response) \<times> world" where
  "recognize_intent_endpoint ev text_content w =
     (if \<not> (configured (API_KEY ev) \<and> configured (PROJECT_ID ev) \<and> configured (MODEL_ID ev))
      then (Inl missing_env, w)
      else if text_content = []
      then (Inl (HTTPException 400 [Lit ''Text content is required'']), w)
      else
        (case make_watsonx_request ev
                \<lparr> messages = IntentPrompt text_content, max_new_tokens = 100,
                  model_id = getenv_str (MODEL_ID ev), project_id = getenv_str (PROJECT_ID ev) \<rparr>
                (getenv_str (API_KEY ev)) 2 w of
           (Inl e, w') \<Rightarrow> (Inl (reraise ''Intent recognition failed: '' e), w')
         | (Inr result, w') \<Rightarrow>
             if truthy result
             then (case chat_content result of
                     Inl e \<Rightarrow> (Inl (reraise ''Intent recognition failed: '' e), w')
                   | Inr intent \<Rightarrow>
                       (Inr (IntentResponse intent True
                               ''Intent recognition completed successfully''), w'))
             else (Inl (HTTPException 500 [Lit ''Failed to get intent recognition response'']), w')))"

definition resolution_templates :: "string list" where
  "resolution_templates =
     [''GST_REGISTRATION'', ''GST_COMPLIANCE'', ''GST_CALCULATION'', ''LICENSE_APPLICATION'',
      ''LICENSE_RENEWAL'', ''LICENSE_COMPLIANCE'', ''TAX_FILING'', ''BUSINESS_SETUP'',
      ''DOCUMENTATION'', ''OTHER'']"

text \<open>
  \<open>generate_resolution_endpoint\<close> on \<open>{"content": content, "intent": intent}\<close>. The
  intent is not empty where its first word is taken; a blank one makes \<open>split()[0]\<close>
  raise.
\<close>

definition generate_resolution_endpoint ::
  "env \<Rightarrow> string \<Rightarrow> string \<Rightarrow> world \<Rightarrow> (exn + resolution_response) \<times> world" where
  "generate_resolution_endpoint ev content' intent w =
     (if \<not> (configured (API_KEY ev) \<and> configured (PROJECT_ID ev) \<and> configured (MODEL_ID ev))
      then (Inl missing_env, w)
      else if content' = [] \<or> intent = []
      then (Inl (HTTPException 400 [Lit ''Both content and intent are required'']), w)
      else
        (case py_split intent of
           [] \<Rightarrow> (Inl (HTTPException 500
                     [Lit ''Resolution generation failed: '', StrOf (PyException ''IndexError'')]), w)
         | first_word # other_words \<Rightarrow>
             (let intent_category =
                    (if first_word \<in> set resolution_templates then first_word else ''OTHER'')
              in case make_watsonx_request ev
                        \<lparr> messages = ResolutionPrompt intent_category intent content',
                          max_new_tokens = 1500,
                          model_id = getenv_str (MODEL_ID ev),
                          project_id = getenv_str (PROJECT_ID ev) \<rparr>
                        (getenv_str (API_KEY ev)) 2 w of
                   (Inl e, w') \<Rightarrow> (Inl (reraise ''Resolution generation failed: '' e), w')
                 | (Inr result, w') \<Rightarrow>
                     if truthy result
                     then (case chat_content result of
                             Inl e \<Rightarrow> (Inl (reraise ''Resolution generation failed: '' e), w')
                           | Inr resolution \<Rightarrow>
                               (Inr (ResolutionResponse resolution True
                                       ''Resolution generated successfully''), w'))
                     else (Inl (HTTPException 500 [Lit ''Failed to get resolution response'']), w'))))"

definition full_failed :: "exn \<Rightarrow> exn" where
  "full_failed e = reraise ''Full analysis failed: '' e"

definition full_analysis_endpoint ::
  "env \<Rightarrow> upload \<Rightarrow> world \<Rightarrow> ((exn + full_analysis_response) \<times> world) option" where
  "full_analysis_endpoint ev file w =
     (if \<not> py_endswith (py_lower (filename file)) ''.mp3''
      then Some (Inl not_mp3, w)
      else if \<not> configured (API_KEY ev)
      then Some (Inl (HTTPException 500 [Lit ''API_KEY not found in environment variables'']), w)
      else
        (case transcribe_audio_file ev file w of
           None \<Rightarrow> None
         | Some (Inl e, w1) \<Rightarrow> Some (Inl (full_failed e), w1)
         | Some (Inr transcription, w1) \<Rightarrow>
             (case recognize_intent_endpoint ev transcription w1 of
                (Inl e, w2) \<Rightarrow> Some (Inl (full_failed e), w2)
              | (Inr (IntentResponse intent ok msg), w2) \<Rightarrow>
                  (case generate_resolution_endpoint ev transcription intent w2 of
                     (Inl e, w3) \<Rightarrow> Some (Inl (full_failed e), w3)
                   | (Inr (ResolutionResponse resolution ok' msg'), w3) \<Rightarrow>
                       Some (Inr (FullAnalysisResponse transcription intent resolution True
                                    ''Full analysis completed successfully''), w3)))))"

text \<open>The payloads of the two chat calls are told apart by their prompt.\<close>

fun is_intent_call :: "json \<times> payload \<Rightarrow> bool" where
  "is_intent_call (tok, pl) = (case messages pl of IntentPrompt t \<Rightarrow> True | ResolutionPrompt c i q \<Rightarrow> False)"

fun is_resolution_call :: "json \<times> payload \<Rightarrow> bool" where
  "is_resolution_call (tok, pl) = (case messages pl of IntentPrompt t \<Rightarrow> False | ResolutionPrompt c i q \<Rightarrow> True)"

section \<open>Sample environments\<close>

text \<open>
  The state of a freshly started process (the module's initial caches), an environment in
  which nothing answers, and variations of it used to run the model on concrete inputs.
\<close>

definition fresh_world :: world where
  "fresh_world =
     \<lparr> token = JNull, expiry = 0, whisper_loaded = False, time_reads = 0,
       iam_log = [], wx_log = [], asr_log = [], preprocess_log = [], sleeps = 0 \<rparr>"

definition quiet_env :: env where
  "quiet_env =
     \<lparr> time_at = (\<lambda>k. 1000),
       iam_post = (\<lambda>k key. ConnectionFailed ''unreachable''),
       wx_post = (\<lambda>k tok pl. ConnectionFailed ''unreachable''),
       asr = (\<lambda>k chunk rate params. Inl (PyException ''RuntimeError'')),
       from_pretrained = None,
       librosa_pipeline = (\<lambda>bytes. Inl (PyException ''NoBackendError'')),
       API_KEY = Some ''key'', PROJECT_ID = Some ''proj'', MODEL_ID = Some ''model'' \<rparr>"

definition token_reply :: http_reply where
  "token_reply =
     Response 200 ''{...}''
       (Inr (JObj [(''access_token'', JStr ''tok''), (''expires_in'', JNum 3600)]))"

definition env_token_ok :: env where
  "env_token_ok = quiet_env\<lparr>iam_post := (\<lambda>k key. token_reply)\<rparr>"

definition env_no_token :: env where
  "env_no_token = quiet_env\<lparr>iam_post := (\<lambda>k key. Response 200 ''{}'' (Inr (JObj [])))\<rparr>"

definition env_forbidden :: env where
  "env_forbidden = quiet_env\<lparr>iam_post := (\<lambda>k key. Response 403 ''denied'' (Inl (PyException ''JSONDecodeError'')))\<rparr>"

definition cached_world :: world where
  "cached_world = fresh_world\<lparr>token := JStr ''old'', expiry := 2000\<rparr>"

definition chat_reply :: "string \<Rightarrow> http_reply" where
  "chat_reply s =
     Response 200 ''{...}''
       (Inr (JObj [(''choices'', JArr [JObj [(''message'', JObj [(''content'', JStr s)])]])]))"

definition intent_payload :: payload where
  "intent_payload =
     \<lparr> messages = IntentPrompt ''how do I register for GST'', max_new_tokens = 100,
       model_id = ''model'', project_id = ''proj'' \<rparr>"

text \<open>The first chat call times out, the second one answers.\<close>

definition env_flaky :: env where
  "env_flaky = env_token_ok\<lparr>wx_post :=
     (\<lambda>k tok pl. if k = 0 then ConnectionFailed ''timed out'' else chat_reply ''GST_REGISTRATION'')\<rparr>"

text \<open>The first chat call is answered with 401, the second one with 200.\<close>

definition env_expired :: env where
  "env_expired = env_token_ok\<lparr>wx_post :=
     (\<lambda>k tok pl. if k = 0 then Response 401 ''expired'' (Inl (PyException ''JSONDecodeError''))
                 else chat_reply ''GST_REGISTRATION'')\<rparr>"

text \<open>
  The first chat call is answered with 200 and a body that does not decode (\<open>json()\<close>
  raises a \<open>RequestException\<close>), the second one with 200 and a proper body.
\<close>

definition env_badjson :: env where
  "env_badjson = env_token_ok\<lparr>wx_post :=
     (\<lambda>k tok pl. if k = 0 then Response 200 ''<html>'' (Inl (RequestException ''JSONDecodeError''))
                 else chat_reply ''GST_REGISTRATION'')\<rparr>"

text \<open>Every chat call is answered with 200 and a proper body.\<close>

definition env_chat_ok :: env where
  "env_chat_ok = env_token_ok\<lparr>wx_post := (\<lambda>k tok pl. chat_reply ''GST_REGISTRATION'')\<rparr>"

text \<open>Every chat call is answered with 500.\<close>

definition env_broken :: env where
  "env_broken = env_token_ok\<lparr>wx_post :=
     (\<lambda>k tok pl. Response 500 ''boom'' (Inl (PyException ''JSONDecodeError'')))\<rparr>"

text \<open>The state after a first successful credential exchange at time 1000.\<close>

definition token_world :: world where
  "token_world =
     fresh_world\<lparr>time_reads := 1, iam_log := [''key''], token := JStr ''tok'', expiry := 4300\<rparr>"

text \<open>
  A model that fails on its first call and answers afterwards, a waveform of 35 samples
  and its upload; at the sampling rate 1 the waveform is 35 s long.
\<close>

definition env_first_chunk_fails :: env where
  "env_first_chunk_fails = quiet_env\<lparr>asr :=
     (\<lambda>k chunk rate params. if k = 0 then Inl (PyException ''RuntimeError'')
                              else Inr '' jumps over '')\<rparr>"

definition wave35 :: "sample list" where
  "wave35 = replicate 35 1"

text \<open>A model that answers, behind a decoder that yields one second of audio.\<close>

definition env_speech :: env where
  "env_speech = env_token_ok\<lparr>
     librosa_pipeline := (\<lambda>bytes. Inr (replicate 16000 1)),
     asr := (\<lambda>k chunk rate params. Inr '' how do I register for GST '')\<rparr>"

definition call_mp3 :: upload where
  "call_mp3 = \<lparr> filename = ''Call.MP3'', content = ''ID3'' \<rparr>"

definition notes_txt :: upload where
  "notes_txt = \<lparr> filename = ''notes.txt'', content = ''hello'' \<rparr>"

text \<open>An upload above the size ceiling whose name is not an MP3 name.\<close>

definition big_wav :: upload where
  "big_wav = \<lparr> filename = ''talk.wav'', content = replicate 104857601 (CHR ''x'') \<rparr>"

text \<open>A short clip is transcribed, and every chat call is answered with 500.\<close>

definition env_speech_broken :: env where
  "env_speech_broken = env_token_ok\<lparr>
     librosa_pipeline := (\<lambda>bytes. Inr [1, 0, 1]),
     asr := (\<lambda>k chunk rate params. Inr '' how do I register for GST ''),
     wx_post := (\<lambda>k tok pl. Response 500 ''boom'' (Inl (PyException ''JSONDecodeError'')))\<rparr>"

definition decoded_world :: world where
  "decoded_world = fresh_world\<lparr>whisper_loaded := True, preprocess_log := [''ID3'']\<rparr>"

definition heard_world :: world where
  "heard_world = decoded_world\<lparr>asr_log := [([1, 0, 1], 16000, short_params)]\<rparr>"

section \<open>Properties of the reconciler\<close>

lemma trimmed_py_strip: "trimmed (py_strip s)"
proof (cases "py_strip s")
  case Nil
  then show ?thesis by (simp add: trimmed_def)
next
  case (Cons c cs)
  define u where "u = dropWhile is_space s"
  define r where "r = dropWhile is_space (rev u)"
  have ps: "py_strip s = rev r" by (simp add: py_strip_def u_def r_def)
  with Cons have r_ne: "r \<noteq> []" by auto
  have "\<not> is_space (hd r)" using r_ne unfolding r_def by (rule hd_dropWhile)
  then have last_ok: "\<not> is_space (last (py_strip s))"
    using r_ne by (simp add: ps last_rev)
  have "rev u = takeWhile is_space (rev u) @ r" by (simp add: r_def)
  then have "rev (rev u) = rev (takeWhile is_space (rev u) @ r)" by simp
  then have u_eq: "u = rev r @ rev (takeWhile is_space (rev u))" by simp
  have u_ne: "u \<noteq> []" using u_eq r_ne by auto
  have "\<not> is_space (hd u)" using u_ne unfolding u_def by (rule hd_dropWhile)
  moreover have "hd u = hd (rev r)" using u_eq r_ne by (metis hd_append2 rev_is_Nil_conv)
  ultimately have "\<not> is_space (hd (py_strip s))" by (simp add: ps)
  with Cons last_ok show ?thesis by (simp add: trimmed_def)
qed

text \<open>
  C2. The reconciler applied to "the quick brown fox" and "brown fox jumps over" returns
  exactly "the quick brown fox jumps over": the search for the largest overlap runs from
  min(10, 4, 4) = 4 downwards, finds that the last tokens of the combined text equal the
  first tokens of the next transcript, and only the tokens after the overlap are appended.
\<close>

theorem reconcile_quick_brown_fox:
  "clean_combined_transcription [''the quick brown fox'', ''brown fox jumps over'']
     = ''the quick brown fox jumps over''
   \<and> find_overlap (py_split ''the quick brown fox'') (py_split ''brown fox jumps over'')
       (min 10 (min (length (py_split ''the quick brown fox''))
                    (length (py_split ''brown fox jumps over'')))) = 2
   \<and> drop 2 (py_split ''brown fox jumps over'') = [''jumps'', ''over'']"
  by code_simp

text \<open>
  C9 (as amended). For every sequence of at least two transcripts the merged string has
  no leading and no trailing whitespace; a sequence of one transcript is returned as it
  is, so the result is trimmed whenever every transcript handed in is already stripped
  (which is what both callers hand in).
\<close>

theorem reconcile_trimmed:
  "(2 \<le> length ts \<longrightarrow> trimmed (clean_combined_transcription ts))
   \<and> clean_combined_transcription [t] = t
   \<and> ((\<forall>x \<in> set ts. py_strip x = x) \<longrightarrow> trimmed (clean_combined_transcription ts))"
proof (intro conjI impI)
  assume "2 \<le> length ts"
  then obtain a b rest where "ts = a # b # rest"
    by (cases ts; cases "tl ts") auto
  then show "trimmed (clean_combined_transcription ts)"
    by (simp add: trimmed_py_strip)
next
  show "clean_combined_transcription [t] = t" by simp
next
  assume stripped: "\<forall>x \<in> set ts. py_strip x = x"
  show "trimmed (clean_combined_transcription ts)"
  proof (cases ts)
    case Nil
    then show ?thesis by (simp add: trimmed_def)
  next
    case (Cons a rest)
    show ?thesis
    proof (cases rest)
      case Nil
      have "trimmed (py_strip a)" by (rule trimmed_py_strip)
      moreover have "py_strip a = a" using stripped Cons by simp
      ultimately show ?thesis using Cons Nil by simp
    next
      case (Cons b more)
      with \<open>ts = a # rest\<close> show ?thesis by (simp add: trimmed_py_strip)
    qed
  qed
qed

theorem reconcile_trimmed_witness:
  "2 \<le> length [''hello world '', '' goodbye moon'']
   \<and> trimmed (clean_combined_transcription [''hello world '', '' goodbye moon''])
   \<and> clean_combined_transcription [''hello''] = ''hello''
   \<and> (\<exists>x. x \<in> set [''hello world'', ''goodbye moon''] \<and> py_strip x = x)
   \<and> trimmed (clean_combined_transcription [''hello world'', ''goodbye moon''])"
proof -
  have a: "2 \<le> length [''hello world '', '' goodbye moon'']" by simp
  have s1: "py_strip ''hello world'' = ''hello world''" by code_simp
  have s2: "py_strip ''goodbye moon'' = ''goodbye moon''" by code_simp
  have b: "\<forall>x \<in> set [''hello world'', ''goodbye moon'']. py_strip x = x"
    using s1 s2 by simp
  have c: "\<exists>x. x \<in> set [''hello world'', ''goodbye moon''] \<and> py_strip x = x"
    using s1 by auto
  from reconcile_trimmed [of "[''hello world '', '' goodbye moon'']" "''hello''"] a
  have t1: "trimmed (clean_combined_transcription [''hello world '', '' goodbye moon''])"
    by blast
  from reconcile_trimmed [of "[''hello world'', ''goodbye moon'']" "''hello''"] b
  have t2: "trimmed (clean_combined_transcription [''hello world'', ''goodbye moon''])"
    and t3: "clean_combined_transcription [''hello''] = ''hello''"
    by blast+
  from a t1 t2 t3 c show ?thesis by blast
qed

text \<open>
  C9 as stated fails on a sequence of one transcript: the early return hands the only
  element back without stripping it.
\<close>

theorem reconcile_singleton_untrimmed:
  "[[CHR '' '', CHR ''a'']] \<noteq> [] \<and> [CHR '' '', CHR ''a''] \<noteq> []
   \<and> \<not> trimmed (clean_combined_transcription [[CHR '' '', CHR ''a'']])"
  by (simp add: trimmed_def is_space_def)

section \<open>Properties of the segmentation\<close>

lemma chunk_loop_chain:
  assumes "ov < cs"
  shows "start < length a \<Longrightarrow>
         \<exists>segs. chunk_loop cs ov a start acc = Some (acc @ segs) \<and> chain cs ov a start segs"
proof (induction "length a - start" arbitrary: start acc rule: less_induct)
  case less
  show ?case
  proof (cases "length a \<le> start + cs")
    case True
    then have "chunk_loop cs ov a start acc = Some (acc @ [make_chunk cs a start])"
      using less.prems by (subst chunk_loop.simps) (simp add: chunk_end_def)
    then show ?thesis using True less.prems by (intro exI[of _ "[make_chunk cs a start]"]) simp
  next
    case False
    let ?s = "start + cs - ov"
    have e: "chunk_end cs a start = start + cs" using False by (simp add: chunk_end_def)
    have lt: "?s < length a" using False by simp
    have dec: "length a - ?s < length a - start" using False assms by simp
    from less.hyps[OF dec lt, of "acc @ [make_chunk cs a start]"]
    obtain segs where s1: "chunk_loop cs ov a ?s (acc @ [make_chunk cs a start]) = Some ((acc @ [make_chunk cs a start]) @ segs)"
      and s2: "chain cs ov a ?s segs" by blast
    have "chunk_loop cs ov a start acc = chunk_loop cs ov a ?s (acc @ [make_chunk cs a start])"
      using less.prems False by (subst chunk_loop.simps) (simp add: e)
    with s1 have r: "chunk_loop cs ov a start acc = Some (acc @ (make_chunk cs a start # segs))" by simp
    from s2 obtain h rest where hr: "segs = h # rest" by (cases segs) auto
    have "chain cs ov a start (make_chunk cs a start # segs)"
      using s2 False hr by simp
    with r show ?thesis by blast
  qed
qed

lemma chain_hd: "chain cs ov a s segs \<Longrightarrow> segs \<noteq> [] \<and> seg_start (hd segs) = s"
  by (cases "(cs, ov, a, s, segs)" rule: chain.cases) (auto simp: make_chunk_def)

lemma chain_last: "chain cs ov a s segs \<Longrightarrow> seg_end (last segs) = length a"
  by (induction cs ov a s segs rule: chain.induct) (auto simp: make_chunk_def chunk_end_def)

lemma chain_covers:
  "ov < cs \<Longrightarrow> chain cs ov a s segs \<Longrightarrow> s \<le> i \<Longrightarrow> i < length a \<Longrightarrow>
   \<exists>k < length segs. seg_start (segs ! k) \<le> i \<and> i < seg_end (segs ! k)"
proof (induction cs ov a s segs rule: chain.induct)
  case (1 cs ov a s)
  then show ?case by simp
next
  case (2 cs ov a s g)
  then show ?case by (auto simp: make_chunk_def chunk_end_def)
next
  case (3 cs ov a s g h rest)
  show ?case
  proof (cases "i < s + cs")
    case True
    then have "seg_start ((g # h # rest) ! 0) \<le> i \<and> i < seg_end ((g # h # rest) ! 0)"
      using 3 by (auto simp: make_chunk_def chunk_end_def)
    then show ?thesis by blast
  next
    case False
    then have "s + cs - ov \<le> i" by simp
    with 3 obtain k where "k < length (h # rest)"
      "seg_start ((h # rest) ! k) \<le> i \<and> i < seg_end ((h # rest) ! k)" by auto
    then have "Suc k < length (g # h # rest) \<and> seg_start ((g # h # rest) ! Suc k) \<le> i \<and> i < seg_end ((g # h # rest) ! Suc k)"
      by simp
    then show ?thesis by blast
  qed
qed

lemma chain_overlaps:
  "ov < cs \<Longrightarrow> chain cs ov a s segs \<Longrightarrow> exact_overlaps ov segs"
proof (induction cs ov a s segs rule: chain.induct)
  case (1 cs ov a s)
  then show ?case by simp
next
  case (2 cs ov a s g)
  then show ?case by (simp add: exact_overlaps_def)
next
  case (3 cs ov a s g h rest)
  then have ih: "exact_overlaps ov (h # rest)" and ch: "chain cs ov a (s + cs - ov) (h # rest)" by auto
  from chain_hd[OF ch] have hs: "seg_start h = s + cs - ov" by simp
  have ge: "seg_end g = s + cs" using 3 by (auto simp: make_chunk_def chunk_end_def)
  show ?case unfolding exact_overlaps_def
  proof (intro allI impI)
    fix k assume k: "Suc k < length (g # h # rest)"
    show "seg_start ((g # h # rest) ! Suc k) + ov = seg_end ((g # h # rest) ! k)"
    proof (cases k)
      case 0
      then show ?thesis using hs ge 3(2) by simp
    next
      case (Suc j)
      then show ?thesis using ih k by (simp add: exact_overlaps_def)
    qed
  qed
qed

lemma py_slice_length: "j \<le> length xs \<Longrightarrow> length (py_slice xs i j) = j - i"
  by (simp add: py_slice_def)

lemma make_chunk_faithful:
  assumes "s < length a"
  shows "seg_start (make_chunk cs a s) = s"
    and "seg_end (make_chunk cs a s) \<le> length a"
    and "\<exists>n. samples (make_chunk cs a s) =
            py_slice a (seg_start (make_chunk cs a s)) (seg_end (make_chunk cs a s)) @ replicate n 0 \<and>
          (0 < n \<longrightarrow> length a < s + cs \<and> 0 < s \<and> length (samples (make_chunk cs a s)) = cs)"
proof -
  show "seg_start (make_chunk cs a s) = s" by (simp add: make_chunk_def)
  show "seg_end (make_chunk cs a s) \<le> length a" by (simp add: make_chunk_def chunk_end_def)
  let ?e = "chunk_end cs a s"
  let ?c = "py_slice a s ?e"
  have len: "length ?c = ?e - s" by (simp add: py_slice_length chunk_end_def)
  show "\<exists>n. samples (make_chunk cs a s) =
            py_slice a (seg_start (make_chunk cs a s)) (seg_end (make_chunk cs a s)) @ replicate n 0 \<and>
          (0 < n \<longrightarrow> length a < s + cs \<and> 0 < s \<and> length (samples (make_chunk cs a s)) = cs)"
  proof (cases "length ?c < cs \<and> 0 < s")
    case True
    then have "samples (make_chunk cs a s) = ?c @ replicate (cs - length ?c) 0"
      by (simp add: make_chunk_def pad_chunk_def)
    moreover have "length a < s + cs" using True len assms by (simp add: chunk_end_def min_def split: if_splits)
    moreover have "length (?c @ replicate (cs - length ?c) 0) = cs" using True by simp
    ultimately show ?thesis using True
      by (intro exI[of _ "cs - length ?c"]) (simp add: make_chunk_def)
  next
    case False
    then have "samples (make_chunk cs a s) = ?c"
      by (simp add: make_chunk_def pad_chunk_def)
    then show ?thesis by (intro exI[of _ 0]) (simp add: make_chunk_def)
  qed
qed

lemma chain_faithful:
  "ov < cs \<Longrightarrow> chain cs ov a s segs \<Longrightarrow> chunks_faithful cs a segs"
proof (induction cs ov a s segs rule: chain.induct)
  case (1 cs ov a s)
  then show ?case by simp
next
  case (2 cs ov a s g)
  then have g: "g = make_chunk cs a s" and s: "s < length a" and cs: "0 < cs" by auto
  from make_chunk_faithful(3)[OF s, of cs] obtain n where
    n: "samples g = py_slice a (seg_start g) (seg_end g) @ replicate n 0"
       "0 < n \<longrightarrow> length a < s + cs \<and> 0 < s \<and> length (samples g) = cs"
    unfolding g by blast
  have "seg_start g = s" "seg_start g < seg_end g" "seg_end g \<le> length a"
    using s cs by (auto simp: g make_chunk_def chunk_end_def)
  with n show ?case unfolding chunks_faithful_def by auto
next
  case (3 cs ov a s g h rest)
  then have g: "g = make_chunk cs a s" and s: "s + cs < length a"
    and ih: "chunks_faithful cs a (h # rest)" by auto
  have s': "s < length a" using s by simp
  have cs: "0 < cs" using 3(2) by simp
  show ?case unfolding chunks_faithful_def
  proof (intro allI impI)
    fix k assume k: "k < length (g # h # rest)"
    show "seg_start ((g # h # rest) ! k) < seg_end ((g # h # rest) ! k) \<and>
         seg_end ((g # h # rest) ! k) \<le> length a \<and>
         (\<exists>n. samples ((g # h # rest) ! k) =
                py_slice a (seg_start ((g # h # rest) ! k)) (seg_end ((g # h # rest) ! k)) @ replicate n 0 \<and>
              (0 < n \<longrightarrow> Suc k = length (g # h # rest) \<and> 0 < seg_start ((g # h # rest) ! k) \<and>
                         length (samples ((g # h # rest) ! k)) = cs))"
    proof (cases k)
      case 0
      from make_chunk_faithful(3)[OF s', of cs] obtain n where
        n: "samples g = py_slice a (seg_start g) (seg_end g) @ replicate n 0"
           "0 < n \<longrightarrow> length a < s + cs \<and> 0 < s \<and> length (samples g) = cs"
        unfolding g by blast
      from n(2) s have "n = 0" by auto
      with n(1) have "samples g = py_slice a (seg_start g) (seg_end g) @ replicate 0 0" by simp
      moreover have "seg_start g < seg_end g" "seg_end g \<le> length a"
        using s cs by (auto simp: g make_chunk_def chunk_end_def)
      ultimately show ?thesis using 0 by auto
    next
      case (Suc j)
      then have "j < length (h # rest)" using k by simp
      with ih show ?thesis unfolding chunks_faithful_def Suc by simp
    qed
  qed
qed

lemma chunk_loop_plan_ok:
  assumes "ov < cs"
  shows "\<exists>segs. chunk_loop cs ov a 0 [] = Some segs \<and> plan_ok cs ov a segs"
proof (cases "a = []")
  case True
  then have "chunk_loop cs ov a 0 [] = Some []" by (subst chunk_loop.simps) simp
  moreover have "plan_ok cs ov a []"
    using True by (simp add: plan_ok_def covers_def exact_overlaps_def chunks_faithful_def)
  ultimately show ?thesis by blast
next
  case False
  then have "0 < length a" by simp
  from chunk_loop_chain[OF assms this, of "[]"] obtain segs where
    r: "chunk_loop cs ov a 0 [] = Some segs" and c: "chain cs ov a 0 segs" by auto
  have "covers a segs" unfolding covers_def using chain_covers[OF assms c] by simp
  with chain_hd[OF c] chain_last[OF c] chain_overlaps[OF assms c] chain_faithful[OF assms c]
  have "plan_ok cs ov a segs" by (simp add: plan_ok_def)
  with r show ?thesis by blast
qed

text \<open>
  C1. For every waveform segmented by the LONG or the VERY_LONG chunking loop (at a
  positive sampling rate) the loop returns, and the ranges it emits start at 0, end at
  the waveform's end and cover every sample index with no gap; every pair of consecutive
  chunks overlaps by exactly the tier's overlap (2 s of samples for LONG, 1 s for
  VERY_LONG). Only the last chunk, and only when it is not the first, is padded at its
  tail with zeros up to the window length; padding does not move its start, so the
  overlap of the final pair is the same.
\<close>

theorem chunk_plans_cover_with_exact_overlap:
  assumes "0 < sampling_rate"
  shows "(\<exists>segs. long_chunks audio_array sampling_rate = Some segs \<and>
            plan_ok (30 * sampling_rate) (2 * sampling_rate) audio_array segs) \<and>
         (\<exists>segs. very_long_chunks audio_array sampling_rate = Some segs \<and>
            plan_ok (20 * sampling_rate) (1 * sampling_rate) audio_array segs)"
proof
  have "2 * sampling_rate < 30 * sampling_rate" using assms by simp
  from chunk_loop_plan_ok[OF this, of audio_array]
  show "\<exists>segs. long_chunks audio_array sampling_rate = Some segs \<and>
          plan_ok (30 * sampling_rate) (2 * sampling_rate) audio_array segs"
    by (simp add: long_chunks_def)
next
  have "1 * sampling_rate < 20 * sampling_rate" using assms by simp
  from chunk_loop_plan_ok[OF this, of audio_array]
  show "\<exists>segs. very_long_chunks audio_array sampling_rate = Some segs \<and>
          plan_ok (20 * sampling_rate) (1 * sampling_rate) audio_array segs"
    by (simp add: very_long_chunks_def)
qed

theorem chunk_plans_witness:
  "(0::nat) < 16000 \<and>
   long_chunks (replicate 500000 0) 16000 =
     Some [\<lparr>seg_start = 0, seg_end = 480000, samples = replicate 480000 0\<rparr>,
           \<lparr>seg_start = 448000, seg_end = 500000,
             samples = replicate 52000 0 @ replicate 428000 0\<rparr>] \<and>
   plan_ok (30 * 16000) (2 * 16000) (replicate 500000 0)
     [\<lparr>seg_start = 0, seg_end = 480000, samples = replicate 480000 0\<rparr>,
      \<lparr>seg_start = 448000, seg_end = 500000,
        samples = replicate 52000 0 @ replicate 428000 0\<rparr>] \<and>
   very_long_chunks (replicate 500000 0) 16000 =
     Some [\<lparr>seg_start = 0, seg_end = 320000, samples = replicate 320000 0\<rparr>,
           \<lparr>seg_start = 304000, seg_end = 500000,
             samples = replicate 196000 0 @ replicate 124000 0\<rparr>] \<and>
   plan_ok (20 * 16000) (1 * 16000) (replicate 500000 0)
     [\<lparr>seg_start = 0, seg_end = 320000, samples = replicate 320000 0\<rparr>,
      \<lparr>seg_start = 304000, seg_end = 500000,
        samples = replicate 196000 0 @ replicate 124000 0\<rparr>]"
proof -
  have pos: "(0::nat) < 16000" by simp
  have l: "long_chunks (replicate 500000 0) 16000 =
     Some [\<lparr>seg_start = 0, seg_end = 480000, samples = replicate 480000 0\<rparr>,
           \<lparr>seg_start = 448000, seg_end = 500000,
             samples = replicate 52000 0 @ replicate 428000 0\<rparr>]"
    by (simp add: long_chunks_def chunk_loop.simps chunk_end_def make_chunk_def
          py_slice_def pad_chunk_def)
  have v: "very_long_chunks (replicate 500000 0) 16000 =
     Some [\<lparr>seg_start = 0, seg_end = 320000, samples = replicate 320000 0\<rparr>,
           \<lparr>seg_start = 304000, seg_end = 500000,
             samples = replicate 196000 0 @ replicate 124000 0\<rparr>]"
    by (simp add: very_long_chunks_def chunk_loop.simps chunk_end_def make_chunk_def
          py_slice_def pad_chunk_def)
  from chunk_plans_cover_with_exact_overlap[OF pos, of "replicate 500000 0"] pos l v
  show ?thesis by simp
qed

section \<open>Properties of the credential cache\<close>

lemmas sample_defs = fresh_world_def quiet_env_def token_reply_def env_token_ok_def
  env_no_token_def env_forbidden_def cached_world_def chat_reply_def intent_payload_def
  env_flaky_def env_expired_def env_broken_def env_badjson_def env_chat_ok_def token_world_def env_first_chunk_fails_def
  wave35_def env_speech_def call_mp3_def notes_txt_def big_wav_def env_speech_broken_def
  decoded_world_def heard_world_def

text \<open>
  C4. A call \<open>get_access_token(api_key, force_refresh=False)\<close> made at time \<open>now\<close>: if a
  token is cached and \<open>now\<close> is before the cached expiry, that token is returned, no
  credential exchange is made (the log of exchanges is unchanged) and the cache is
  unchanged; otherwise exactly one exchange is made and, when it yields a token, the cache
  holds that token with expiry \<open>now + expires_in - 300\<close> (\<open>expires_in\<close> being 3600 when
  the response names none).
\<close>

theorem get_access_token_cache_contract:
  assumes "time_at ev (time_reads w) = now"
  shows "(truthy (token w) \<and> now < expiry w \<longrightarrow>
            fst (get_access_token ev api_key False w) = Inr (token w) \<and>
            iam_log (snd (get_access_token ev api_key False w)) = iam_log w \<and>
            token (snd (get_access_token ev api_key False w)) = token w \<and>
            expiry (snd (get_access_token ev api_key False w)) = expiry w) \<and>
         (\<not> (truthy (token w) \<and> now < expiry w) \<longrightarrow>
            iam_log (snd (get_access_token ev api_key False w)) = iam_log w @ [api_key] \<and>
            (\<forall>tok. fst (get_access_token ev api_key False w) = Inr tok \<and> truthy tok \<longrightarrow>
               (\<exists>st body token_data e.
                  iam_post ev (length (iam_log w)) api_key =
                    Response st body (Inr (JObj token_data)) \<and>
                  tok = dict_get token_data ''access_token'' JNull \<and>
                  as_number (dict_get token_data ''expires_in'' (JNum 3600)) = Some e \<and>
                  token (snd (get_access_token ev api_key False w)) = tok \<and>
                  expiry (snd (get_access_token ev api_key False w)) = now + e - 300)))"
proof (intro conjI impI)
  assume hit: "truthy (token w) \<and> now < expiry w"
  then have "get_access_token ev api_key False w =
               (Inr (token w), w\<lparr>time_reads := Suc (time_reads w)\<rparr>)"
    using assms by (simp add: get_access_token_def Let_def)
  then show "fst (get_access_token ev api_key False w) = Inr (token w)"
    and "iam_log (snd (get_access_token ev api_key False w)) = iam_log w"
    and "token (snd (get_access_token ev api_key False w)) = token w"
    and "expiry (snd (get_access_token ev api_key False w)) = expiry w"
    by simp_all
next
  assume miss: "\<not> (truthy (token w) \<and> now < expiry w)"
  then show "iam_log (snd (get_access_token ev api_key False w)) = iam_log w @ [api_key]"
    using assms
    by (auto simp: get_access_token_def Let_def
             split: http_reply.splits sum.splits json.splits option.splits)
  show "\<forall>tok. fst (get_access_token ev api_key False w) = Inr tok \<and> truthy tok \<longrightarrow>
               (\<exists>st body token_data e.
                  iam_post ev (length (iam_log w)) api_key =
                    Response st body (Inr (JObj token_data)) \<and>
                  tok = dict_get token_data ''access_token'' JNull \<and>
                  as_number (dict_get token_data ''expires_in'' (JNum 3600)) = Some e \<and>
                  token (snd (get_access_token ev api_key False w)) = tok \<and>
                  expiry (snd (get_access_token ev api_key False w)) = now + e - 300)"
    using miss assms
    by (auto simp: get_access_token_def Let_def
             split: http_reply.splits sum.splits json.splits option.splits if_splits)
qed

theorem get_access_token_cache_witness:
  "time_at env_token_ok (time_reads cached_world) = 1000 \<and>
   truthy (token cached_world) \<and> 1000 < expiry cached_world \<and>
   get_access_token env_token_ok ''key'' False cached_world =
     (Inr (JStr ''old''), cached_world\<lparr>time_reads := 1\<rparr>) \<and>
   iam_log (snd (get_access_token env_token_ok ''key'' False cached_world)) = iam_log cached_world \<and>
   time_at env_token_ok (time_reads fresh_world) = 1000 \<and>
   \<not> (truthy (token fresh_world) \<and> 1000 < expiry fresh_world) \<and>
   fst (get_access_token env_token_ok ''key'' False fresh_world) = Inr (JStr ''tok'') \<and>
   truthy (JStr ''tok'') \<and>
   iam_log (snd (get_access_token env_token_ok ''key'' False fresh_world)) = [''key''] \<and>
   token (snd (get_access_token env_token_ok ''key'' False fresh_world)) = JStr ''tok'' \<and>
   expiry (snd (get_access_token env_token_ok ''key'' False fresh_world)) = 1000 + 3600 - 300"
proof -
  have t1: "time_at env_token_ok (time_reads cached_world) = 1000"
    and t2: "time_at env_token_ok (time_reads fresh_world) = 1000"
    by (simp_all add: sample_defs)
  have hit: "truthy (token cached_world) \<and> 1000 < expiry cached_world"
    by (simp add: sample_defs)
  have miss: "\<not> (truthy (token fresh_world) \<and> 1000 < expiry fresh_world)"
    by (simp add: sample_defs)
  have v1: "get_access_token env_token_ok ''key'' False cached_world =
     (Inr (JStr ''old''), cached_world\<lparr>time_reads := 1\<rparr>)"
    by (simp add: get_access_token_def sample_defs)
  have v2: "fst (get_access_token env_token_ok ''key'' False fresh_world) = Inr (JStr ''tok'')"
    by (simp add: get_access_token_def sample_defs dict_get_def Let_def)
  from get_access_token_cache_contract[OF t1, of "''key''"] hit
  have c1: "iam_log (snd (get_access_token env_token_ok ''key'' False cached_world)) = iam_log cached_world"
    by blast
  from get_access_token_cache_contract[OF t2, of "''key''"] miss v2
  have c2: "iam_log (snd (get_access_token env_token_ok ''key'' False fresh_world)) = iam_log fresh_world @ [''key'']"
    by blast
  have c3: "token (snd (get_access_token env_token_ok ''key'' False fresh_world)) = JStr ''tok''"
    and c4: "expiry (snd (get_access_token env_token_ok ''key'' False fresh_world)) = 1000 + 3600 - 300"
    by (simp_all add: get_access_token_def sample_defs dict_get_def Let_def)
  have c2': "iam_log (snd (get_access_token env_token_ok ''key'' False fresh_world)) = [''key'']"
    using c2 by (simp add: fresh_world_def)
  from t1 t2 hit miss v1 v2 c1 c2' c3 c4 show ?thesis by simp
qed




section \<open>Properties of the resilient client\<close>

lemma get_access_token_wx_log:
  "wx_log (snd (get_access_token ev api_key force_refresh w)) = wx_log w"
  by (auto simp: get_access_token_def Let_def
           split: http_reply.splits sum.splits json.splits option.splits)

lemma get_access_token_forced:
  "iam_log (snd (get_access_token ev api_key True w)) = iam_log w @ [api_key]"
  by (auto simp: get_access_token_def Let_def
           split: http_reply.splits sum.splits json.splits option.splits)

lemma on_request_exception_wx_log:
  "wx_log (snd (on_request_exception max_retries attempt e w)) = wx_log w"
  by (simp add: on_request_exception_def)

lemma watsonx_attempt_wx_log:
  "length (wx_log (snd (watsonx_attempt ev pl api_key max_retries attempt w)))
     \<le> Suc (length (wx_log w))"
proof (cases "get_access_token ev api_key (0 < attempt) w")
  case (Pair r w1)
  have w1: "wx_log w1 = wx_log w"
    using get_access_token_wx_log[of ev api_key "0 < attempt" w] Pair by simp
  show ?thesis
  proof (cases r)
    case (Inl e)
    then show ?thesis using Pair w1 by (simp add: watsonx_attempt_def)
  next
    case (Inr tok)
    then show ?thesis using Pair w1
      by (auto simp: watsonx_attempt_def Let_def on_request_exception_def
               split: http_reply.splits sum.splits)
  qed
qed

lemma watsonx_loop_unfold:
  "attempt \<le> max_retries \<Longrightarrow>
   watsonx_loop ev pl api_key max_retries attempt w =
     (case watsonx_attempt ev pl api_key max_retries attempt w of
        (Finished r, w') \<Rightarrow> (r, w')
      | (NextAttempt, w') \<Rightarrow> watsonx_loop ev pl api_key max_retries (attempt + 1) w')"
  by (subst watsonx_loop.simps) simp

lemma watsonx_loop_wx_log:
  "length (wx_log (snd (watsonx_loop ev pl api_key max_retries attempt w)))
     \<le> length (wx_log w) + (max_retries + 1 - attempt)"
proof (induction ev pl api_key max_retries attempt w rule: watsonx_loop.induct)
  case (1 ev pl api_key max_retries attempt w)
  show ?case
  proof (cases "attempt < max_retries + 1")
    case False
    then show ?thesis by (subst watsonx_loop.simps) simp
  next
    case True
    obtain c w' where a: "watsonx_attempt ev pl api_key max_retries attempt w = (c, w')"
      by (cases "watsonx_attempt ev pl api_key max_retries attempt w")
    have le: "length (wx_log w') \<le> Suc (length (wx_log w))"
      using watsonx_attempt_wx_log[of ev pl api_key max_retries attempt w] a by simp
    show ?thesis
    proof (cases c)
      case (Finished r)
      then have "watsonx_loop ev pl api_key max_retries attempt w = (r, w')"
        using True a by (subst watsonx_loop.simps) simp
      then show ?thesis using le True by simp
    next
      case NextAttempt
      then have eq: "watsonx_loop ev pl api_key max_retries attempt w =
                 watsonx_loop ev pl api_key max_retries (attempt + 1) w'"
        using True a by (subst watsonx_loop.simps) simp
      from "1.IH"[OF True a[symmetric] NextAttempt]
      have "length (wx_log (snd (watsonx_loop ev pl api_key max_retries (attempt + 1) w')))
              \<le> length (wx_log w') + (max_retries + 1 - (attempt + 1))" .
      then show ?thesis using le True eq by simp
    qed
  qed
qed

lemma watsonx_attempt_cases:
  assumes "get_access_token ev api_key (0 < attempt) w = (Inr tok, w1)" and "truthy tok"
  shows "watsonx_attempt ev pl api_key max_retries attempt w =
     (case wx_post ev (length (wx_log w1)) tok pl of
        ConnectionFailed m \<Rightarrow>
          on_request_exception max_retries attempt (RequestException m) (posted w1 tok pl)
      | Response st body parsed \<Rightarrow>
          if st = 200
          then (case parsed of
                  Inr j \<Rightarrow> (Finished (Inr j), posted w1 tok pl)
                | Inl e \<Rightarrow>
                    if is_request_exception e
                    then on_request_exception max_retries attempt e (posted w1 tok pl)
                    else (Finished (Inl e), posted w1 tok pl))
          else if st = 401 \<and> attempt < max_retries
          then (NextAttempt, (posted w1 tok pl)\<lparr>token := JNull, expiry := 0\<rparr>)
          else (Finished (Inl (HTTPException st [Lit ''WatsonX API Error: '', Lit body])),
                posted w1 tok pl))"
  using assms unfolding posted_def by (simp add: watsonx_attempt_def Let_def)

lemma watsonx_attempt_retries_iff:
  assumes le: "attempt \<le> max_retries"
  shows "fst (watsonx_attempt ev pl api_key max_retries attempt w) = NextAttempt \<longleftrightarrow>
     (\<exists>tok w1. get_access_token ev api_key (0 < attempt) w = (Inr tok, w1) \<and> truthy tok \<and>
        attempt < max_retries \<and> retried_reply (wx_post ev (length (wx_log w1)) tok pl))"
proof (cases "get_access_token ev api_key (0 < attempt) w")
  case (Pair r w1)
  show ?thesis
  proof (cases r)
    case (Inl e)
    then show ?thesis using Pair by (simp add: watsonx_attempt_def)
  next
    case (Inr tok)
    show ?thesis
    proof (cases "truthy tok")
      case False
      then show ?thesis using Pair Inr by (simp add: watsonx_attempt_def)
    next
      case True
      have g: "get_access_token ev api_key (0 < attempt) w = (Inr tok, w1)" using Pair Inr by simp
      have "fst (watsonx_attempt ev pl api_key max_retries attempt w) = NextAttempt \<longleftrightarrow>
              attempt < max_retries \<and> retried_reply (wx_post ev (length (wx_log w1)) tok pl)"
      proof (cases "wx_post ev (length (wx_log w1)) tok pl")
        case (ConnectionFailed m)
        then show ?thesis
          using watsonx_attempt_cases[OF g True, of pl max_retries] le
          by (auto simp: on_request_exception_def)
      next
        case (Response st body parsed)
        then show ?thesis
          using watsonx_attempt_cases[OF g True, of pl max_retries] le
          by (cases parsed) (auto simp: on_request_exception_def)
      qed
      then show ?thesis using g True by auto
    qed
  qed
qed

text \<open>
  C5 (as amended). \<open>make_watsonx_request\<close> goes on to another attempt in two cases
  only, each while attempts remain, so that there are at most \<open>max_retries + 1\<close> chat
  calls in all. One is an HTTP 401 response: it clears the cached token and expiry, and
  the next attempt forces a token refresh (a new credential exchange is made). The other
  is a \<open>RequestException\<close> raised in the \<open>try\<close> block, by a failed call or by a
  status-200 response whose body does not decode: it sleeps one second and goes on. On any
  other status than 200 (403 or 500, say), and on a 401 with no attempt remaining, it
  fails at once with an error carrying that response's status and body, the failing call
  being the last one made. On a 200 whose body decodes it returns the body; on a
  \<open>RequestException\<close> with no attempt remaining it fails with status 500.
\<close>

theorem watsonx_retry_policy:
  assumes "get_access_token ev api_key (0 < attempt) w = (Inr tok, w1)"
      and "truthy tok"
      and "attempt \<le> max_retries"
  shows "(\<forall>body parsed.
            wx_post ev (length (wx_log w1)) tok pl = Response 401 body parsed \<and>
            attempt < max_retries \<longrightarrow>
              watsonx_loop ev pl api_key max_retries attempt w =
                watsonx_loop ev pl api_key max_retries (attempt + 1)
                  ((posted w1 tok pl)\<lparr>token := JNull, expiry := 0\<rparr>) \<and>
              iam_log (snd (get_access_token ev api_key (0 < attempt + 1)
                              ((posted w1 tok pl)\<lparr>token := JNull, expiry := 0\<rparr>)))
                = iam_log w1 @ [api_key]) \<and>
         (\<forall>st body parsed.
            wx_post ev (length (wx_log w1)) tok pl = Response st body parsed \<and>
            st \<noteq> 200 \<and> \<not> (st = 401 \<and> attempt < max_retries) \<longrightarrow>
              watsonx_loop ev pl api_key max_retries attempt w =
                (Inl (HTTPException st [Lit ''WatsonX API Error: '', Lit body]),
                 posted w1 tok pl)) \<and>
         (\<forall>m. wx_post ev (length (wx_log w1)) tok pl = ConnectionFailed m \<and>
              attempt < max_retries \<longrightarrow>
              watsonx_loop ev pl api_key max_retries attempt w =
                watsonx_loop ev pl api_key max_retries (attempt + 1)
                  ((posted w1 tok pl)\<lparr>sleeps := sleeps w1 + 1\<rparr>)) \<and>
         (\<forall>body e.
            wx_post ev (length (wx_log w1)) tok pl = Response 200 body (Inl e) \<and>
            is_request_exception e \<and> attempt < max_retries \<longrightarrow>
              watsonx_loop ev pl api_key max_retries attempt w =
                watsonx_loop ev pl api_key max_retries (attempt + 1)
                  ((posted w1 tok pl)\<lparr>sleeps := sleeps w1 + 1\<rparr>)) \<and>
         (\<forall>m. wx_post ev (length (wx_log w1)) tok pl = ConnectionFailed m \<and>
              attempt = max_retries \<longrightarrow>
              watsonx_loop ev pl api_key max_retries attempt w =
                (Inl (connect_error max_retries (RequestException m)), posted w1 tok pl)) \<and>
         (\<forall>body e.
            wx_post ev (length (wx_log w1)) tok pl = Response 200 body (Inl e) \<and>
            is_request_exception e \<and> attempt = max_retries \<longrightarrow>
              watsonx_loop ev pl api_key max_retries attempt w =
                (Inl (connect_error max_retries e), posted w1 tok pl)) \<and>
         (\<forall>body e.
            wx_post ev (length (wx_log w1)) tok pl = Response 200 body (Inl e) \<and>
            \<not> is_request_exception e \<longrightarrow>
              watsonx_loop ev pl api_key max_retries attempt w = (Inl e, posted w1 tok pl)) \<and>
         (\<forall>body j.
            wx_post ev (length (wx_log w1)) tok pl = Response 200 body (Inr j) \<longrightarrow>
              watsonx_loop ev pl api_key max_retries attempt w = (Inr j, posted w1 tok pl)) \<and>
         (fst (watsonx_attempt ev pl api_key max_retries attempt w) = NextAttempt \<longleftrightarrow>
            attempt < max_retries \<and> retried_reply (wx_post ev (length (wx_log w1)) tok pl)) \<and>
         (\<forall>w0. fst (watsonx_attempt ev pl api_key max_retries attempt w0) = NextAttempt \<longrightarrow>
            (\<exists>tok0 w2. get_access_token ev api_key (0 < attempt) w0 = (Inr tok0, w2) \<and>
               truthy tok0 \<and> attempt < max_retries \<and>
               retried_reply (wx_post ev (length (wx_log w2)) tok0 pl))) \<and>
         length (wx_log (snd (make_watsonx_request ev pl api_key max_retries w0)))
           \<le> length (wx_log w0) + max_retries + 1"
proof -
  note c = watsonx_attempt_cases[OF assms(1,2), of pl max_retries]
  note u = watsonx_loop_unfold[OF assms(3), of ev pl api_key w]
  have p1: "\<forall>body parsed.
            wx_post ev (length (wx_log w1)) tok pl = Response 401 body parsed \<and>
            attempt < max_retries \<longrightarrow>
              watsonx_loop ev pl api_key max_retries attempt w =
                watsonx_loop ev pl api_key max_retries (attempt + 1)
                  ((posted w1 tok pl)\<lparr>token := JNull, expiry := 0\<rparr>) \<and>
              iam_log (snd (get_access_token ev api_key (0 < attempt + 1)
                              ((posted w1 tok pl)\<lparr>token := JNull, expiry := 0\<rparr>)))
                = iam_log w1 @ [api_key]"
  proof (intro allI impI conjI)
    fix body parsed
    assume "wx_post ev (length (wx_log w1)) tok pl = Response 401 body parsed \<and>
            attempt < max_retries"
    then show "watsonx_loop ev pl api_key max_retries attempt w =
                watsonx_loop ev pl api_key max_retries (attempt + 1)
                  ((posted w1 tok pl)\<lparr>token := JNull, expiry := 0\<rparr>)"
      unfolding u c by simp
    show "iam_log (snd (get_access_token ev api_key (0 < attempt + 1)
                              ((posted w1 tok pl)\<lparr>token := JNull, expiry := 0\<rparr>)))
                = iam_log w1 @ [api_key]"
      using get_access_token_forced[of ev api_key
              "(posted w1 tok pl)\<lparr>token := JNull, expiry := 0\<rparr>"]
      by (simp add: posted_def)
  qed
  have p2: "\<forall>st body parsed.
            wx_post ev (length (wx_log w1)) tok pl = Response st body parsed \<and>
            st \<noteq> 200 \<and> \<not> (st = 401 \<and> attempt < max_retries) \<longrightarrow>
              watsonx_loop ev pl api_key max_retries attempt w =
                (Inl (HTTPException st [Lit ''WatsonX API Error: '', Lit body]),
                 posted w1 tok pl)"
    unfolding u c by auto
  have s: "sleeps (posted w1 tok pl) = sleeps w1" by (simp add: posted_def)
  have p3: "\<forall>m. wx_post ev (length (wx_log w1)) tok pl = ConnectionFailed m \<and>
              attempt < max_retries \<longrightarrow>
              watsonx_loop ev pl api_key max_retries attempt w =
                watsonx_loop ev pl api_key max_retries (attempt + 1)
                  ((posted w1 tok pl)\<lparr>sleeps := sleeps w1 + 1\<rparr>)"
    unfolding u c by (auto simp: on_request_exception_def s)
  have p4: "\<forall>body e.
            wx_post ev (length (wx_log w1)) tok pl = Response 200 body (Inl e) \<and>
            is_request_exception e \<and> attempt < max_retries \<longrightarrow>
              watsonx_loop ev pl api_key max_retries attempt w =
                watsonx_loop ev pl api_key max_retries (attempt + 1)
                  ((posted w1 tok pl)\<lparr>sleeps := sleeps w1 + 1\<rparr>)"
    unfolding u c by (auto simp: on_request_exception_def s)
  have p5: "\<forall>m. wx_post ev (length (wx_log w1)) tok pl = ConnectionFailed m \<and>
              attempt = max_retries \<longrightarrow>
              watsonx_loop ev pl api_key max_retries attempt w =
                (Inl (connect_error max_retries (RequestException m)), posted w1 tok pl)"
    unfolding u c by (auto simp: on_request_exception_def connect_error_def)
  have p6: "\<forall>body e.
            wx_post ev (length (wx_log w1)) tok pl = Response 200 body (Inl e) \<and>
            is_request_exception e \<and> attempt = max_retries \<longrightarrow>
              watsonx_loop ev pl api_key max_retries attempt w =
                (Inl (connect_error max_retries e), posted w1 tok pl)"
    unfolding u c by (auto simp: on_request_exception_def connect_error_def)
  have p7: "\<forall>body e.
            wx_post ev (length (wx_log w1)) tok pl = Response 200 body (Inl e) \<and>
            \<not> is_request_exception e \<longrightarrow>
              watsonx_loop ev pl api_key max_retries attempt w = (Inl e, posted w1 tok pl)"
    unfolding u c by auto
  have p8: "\<forall>body j.
            wx_post ev (length (wx_log w1)) tok pl = Response 200 body (Inr j) \<longrightarrow>
              watsonx_loop ev pl api_key max_retries attempt w = (Inr j, posted w1 tok pl)"
    unfolding u c by auto
  have p9: "fst (watsonx_attempt ev pl api_key max_retries attempt w) = NextAttempt \<longleftrightarrow>
            attempt < max_retries \<and> retried_reply (wx_post ev (length (wx_log w1)) tok pl)"
    using watsonx_attempt_retries_iff[OF assms(3), of ev pl api_key w] assms(1,2) by auto
  have p10: "\<forall>w0. fst (watsonx_attempt ev pl api_key max_retries attempt w0) = NextAttempt \<longrightarrow>
            (\<exists>tok0 w2. get_access_token ev api_key (0 < attempt) w0 = (Inr tok0, w2) \<and>
               truthy tok0 \<and> attempt < max_retries \<and>
               retried_reply (wx_post ev (length (wx_log w2)) tok0 pl))"
    using watsonx_attempt_retries_iff[OF assms(3), of ev pl api_key] by blast
  have p11: "length (wx_log (snd (make_watsonx_request ev pl api_key max_retries w0)))
           \<le> length (wx_log w0) + max_retries + 1"
    using watsonx_loop_wx_log[of ev pl api_key max_retries 0 w0]
    by (simp add: make_watsonx_request_def)
  from p1 p2 p3 p4 p5 p6 p7 p8 p9 p10 p11 show ?thesis by (intro conjI)
qed

theorem watsonx_retry_policy_witness:
  "get_access_token env_expired ''key'' (0 < (0::nat)) fresh_world = (Inr (JStr ''tok''), token_world) \<and>
   truthy (JStr ''tok'') \<and> (0::nat) \<le> 2 \<and> (0::nat) < 2 \<and>
   wx_post env_expired (length (wx_log token_world)) (JStr ''tok'') intent_payload
     = Response 401 ''expired'' (Inl (PyException ''JSONDecodeError'')) \<and>
   watsonx_loop env_expired intent_payload ''key'' 2 0 fresh_world =
     watsonx_loop env_expired intent_payload ''key'' 2 (0 + 1)
       ((posted token_world (JStr ''tok'') intent_payload)\<lparr>token := JNull, expiry := 0\<rparr>) \<and>
   iam_log (snd (get_access_token env_expired ''key'' (0 < (0::nat) + 1)
       ((posted token_world (JStr ''tok'') intent_payload)\<lparr>token := JNull, expiry := 0\<rparr>)))
     = [''key'', ''key''] \<and>
   wx_post env_broken (length (wx_log token_world)) (JStr ''tok'') intent_payload
     = Response 500 ''boom'' (Inl (PyException ''JSONDecodeError'')) \<and>
   watsonx_loop env_broken intent_payload ''key'' 2 0 fresh_world =
     (Inl (HTTPException 500 [Lit ''WatsonX API Error: '', Lit ''boom'']),
      posted token_world (JStr ''tok'') intent_payload) \<and>
   fst (watsonx_attempt env_broken intent_payload ''key'' 2 0 fresh_world) \<noteq> NextAttempt \<and>
   wx_post env_flaky (length (wx_log token_world)) (JStr ''tok'') intent_payload
     = ConnectionFailed ''timed out'' \<and>
   watsonx_loop env_flaky intent_payload ''key'' 2 0 fresh_world =
     watsonx_loop env_flaky intent_payload ''key'' 2 (0 + 1)
       ((posted token_world (JStr ''tok'') intent_payload)\<lparr>sleeps := sleeps token_world + 1\<rparr>) \<and>
   wx_post env_badjson (length (wx_log token_world)) (JStr ''tok'') intent_payload
     = Response 200 ''<html>'' (Inl (RequestException ''JSONDecodeError'')) \<and>
   is_request_exception (RequestException ''JSONDecodeError'') \<and>
   watsonx_loop env_badjson intent_payload ''key'' 2 0 fresh_world =
     watsonx_loop env_badjson intent_payload ''key'' 2 (0 + 1)
       ((posted token_world (JStr ''tok'') intent_payload)\<lparr>sleeps := sleeps token_world + 1\<rparr>) \<and>
   fst (watsonx_attempt env_badjson intent_payload ''key'' 2 0 fresh_world) = NextAttempt \<and>
   wx_post env_chat_ok (length (wx_log token_world)) (JStr ''tok'') intent_payload
     = chat_reply ''GST_REGISTRATION'' \<and>
   fst (watsonx_loop env_chat_ok intent_payload ''key'' 2 0 fresh_world) =
     Inr (JObj [(''choices'', JArr [JObj [(''message'', JObj [(''content'', JStr ''GST_REGISTRATION'')])]])]) \<and>
   length (wx_log (snd (make_watsonx_request env_expired intent_payload ''key'' 2 fresh_world)))
     \<le> length (wx_log fresh_world) + 2 + 1"
proof -
  have g1: "get_access_token env_expired ''key'' (0 < (0::nat)) fresh_world = (Inr (JStr ''tok''), token_world)"
    and g2: "get_access_token env_broken ''key'' (0 < (0::nat)) fresh_world = (Inr (JStr ''tok''), token_world)"
    and g3: "get_access_token env_flaky ''key'' (0 < (0::nat)) fresh_world = (Inr (JStr ''tok''), token_world)"
    and g4: "get_access_token env_badjson ''key'' (0 < (0::nat)) fresh_world = (Inr (JStr ''tok''), token_world)"
    and g5: "get_access_token env_chat_ok ''key'' (0 < (0::nat)) fresh_world = (Inr (JStr ''tok''), token_world)"
    by (simp_all add: get_access_token_def sample_defs dict_get_def Let_def)
  have t: "truthy (JStr ''tok'')" by simp
  have le: "(0::nat) \<le> 2" and lt: "(0::nat) < 2" by simp_all
  have r1: "wx_post env_expired (length (wx_log token_world)) (JStr ''tok'') intent_payload
              = Response 401 ''expired'' (Inl (PyException ''JSONDecodeError''))"
    and r2: "wx_post env_broken (length (wx_log token_world)) (JStr ''tok'') intent_payload
              = Response 500 ''boom'' (Inl (PyException ''JSONDecodeError''))"
    and r3: "wx_post env_flaky (length (wx_log token_world)) (JStr ''tok'') intent_payload
              = ConnectionFailed ''timed out''"
    and r4: "wx_post env_badjson (length (wx_log token_world)) (JStr ''tok'') intent_payload
              = Response 200 ''<html>'' (Inl (RequestException ''JSONDecodeError''))"
    and r5: "wx_post env_chat_ok (length (wx_log token_world)) (JStr ''tok'') intent_payload
              = chat_reply ''GST_REGISTRATION''"
    by (simp_all add: sample_defs)
  have r5': "wx_post env_chat_ok (length (wx_log token_world)) (JStr ''tok'') intent_payload
      = Response 200 ''{...}''
         (Inr (JObj [(''choices'', JArr [JObj [(''message'', JObj [(''content'', JStr ''GST_REGISTRATION'')])]])]))"
    using r5 by (simp add: chat_reply_def)
  have q: "is_request_exception (RequestException ''JSONDecodeError'')" by simp
  have k: "iam_log token_world @ [''key''] = [''key'', ''key'']" by (simp add: sample_defs)
  note p1 = watsonx_retry_policy[OF g1 t le, of intent_payload fresh_world]
  note p2 = watsonx_retry_policy[OF g2 t le, of intent_payload fresh_world]
  note p3 = watsonx_retry_policy[OF g3 t le, of intent_payload fresh_world]
  note p4 = watsonx_retry_policy[OF g4 t le, of intent_payload fresh_world]
  note p5 = watsonx_retry_policy[OF g5 t le, of intent_payload fresh_world]
  from p1 r1 lt have a:
    "watsonx_loop env_expired intent_payload ''key'' 2 0 fresh_world =
       watsonx_loop env_expired intent_payload ''key'' 2 (0 + 1)
         ((posted token_world (JStr ''tok'') intent_payload)\<lparr>token := JNull, expiry := 0\<rparr>)"
    and b: "iam_log (snd (get_access_token env_expired ''key'' (0 < (0::nat) + 1)
         ((posted token_world (JStr ''tok'') intent_payload)\<lparr>token := JNull, expiry := 0\<rparr>)))
       = iam_log token_world @ [''key'']"
    by blast+
  from p2 r2 have c:
    "watsonx_loop env_broken intent_payload ''key'' 2 0 fresh_world =
       (Inl (HTTPException 500 [Lit ''WatsonX API Error: '', Lit ''boom'']),
        posted token_world (JStr ''tok'') intent_payload)"
    by simp
  from p2 r2 have c2:
    "fst (watsonx_attempt env_broken intent_payload ''key'' 2 0 fresh_world) \<noteq> NextAttempt"
    by simp
  from p3 r3 lt have d:
    "watsonx_loop env_flaky intent_payload ''key'' 2 0 fresh_world =
       watsonx_loop env_flaky intent_payload ''key'' 2 (0 + 1)
         ((posted token_world (JStr ''tok'') intent_payload)\<lparr>sleeps := sleeps token_world + 1\<rparr>)"
    by blast
  from p4 r4 q lt have f:
    "watsonx_loop env_badjson intent_payload ''key'' 2 0 fresh_world =
       watsonx_loop env_badjson intent_payload ''key'' 2 (0 + 1)
         ((posted token_world (JStr ''tok'') intent_payload)\<lparr>sleeps := sleeps token_world + 1\<rparr>)"
    by blast
  from p4 r4 have f2:
    "fst (watsonx_attempt env_badjson intent_payload ''key'' 2 0 fresh_world) = NextAttempt"
    by simp
  from p5 r5' have h:
    "fst (watsonx_loop env_chat_ok intent_payload ''key'' 2 0 fresh_world) =
       Inr (JObj [(''choices'', JArr [JObj [(''message'', JObj [(''content'', JStr ''GST_REGISTRATION'')])]])])"
    by simp
  from p1 have e:
    "length (wx_log (snd (make_watsonx_request env_expired intent_payload ''key'' 2 fresh_world)))
       \<le> length (wx_log fresh_world) + 2 + 1"
    by blast
  from g1 t le lt r1 r2 r3 r4 r5 q a b[unfolded k] c c2 d f f2 h e show ?thesis by blast
qed

text \<open>
  C5 as stated fails where the first chat call times out: no response has status 401, and
  yet a second call is made (after one sleep), which succeeds.
\<close>

theorem network_failure_is_retried:
  "wx_post env_flaky 0 (JStr ''tok'') intent_payload = ConnectionFailed ''timed out'' \<and>
   wx_post env_flaky 1 (JStr ''tok'') intent_payload = chat_reply ''GST_REGISTRATION'' \<and>
   fst (make_watsonx_request env_flaky intent_payload ''key'' 2 fresh_world)
     = Inr (JObj [(''choices'', JArr [JObj [(''message'', JObj [(''content'', JStr ''GST_REGISTRATION'')])]])]) \<and>
   wx_log (snd (make_watsonx_request env_flaky intent_payload ''key'' 2 fresh_world))
     = [(JStr ''tok'', intent_payload), (JStr ''tok'', intent_payload)] \<and>
   sleeps (snd (make_watsonx_request env_flaky intent_payload ''key'' 2 fresh_world)) = 1"
  by code_simp

text \<open>The same happens after a status-200 response whose body does not decode.\<close>

lemma undecodable_body_is_retried:
  "wx_post env_badjson 0 (JStr ''tok'') intent_payload
     = Response 200 ''<html>'' (Inl (RequestException ''JSONDecodeError'')) \<and>
   wx_log (snd (make_watsonx_request env_badjson intent_payload ''key'' 2 fresh_world))
     = [(JStr ''tok'', intent_payload), (JStr ''tok'', intent_payload)] \<and>
   sleeps (snd (make_watsonx_request env_badjson intent_payload ''key'' 2 fresh_world)) = 1"
  by code_simp

section \<open>Properties of the transcription\<close>

lemma transcribe_chunks_closed:
  "transcribe_chunks ev sampling_rate params chunks acc w =
     (acc @ survivors ev sampling_rate params (length (asr_log w)) chunks,
      w\<lparr>asr_log := asr_log w @ map (\<lambda>c. (c, sampling_rate, params)) chunks\<rparr>)"
proof (induction chunks arbitrary: acc w)
  case Nil
  then show ?case by (simp add: survivors_def)
next
  case (Cons c cs)
  show ?case
  proof (cases "asr ev (length (asr_log w)) c sampling_rate params")
    case (Inl e)
    then show ?thesis
      by (simp add: Cons survivors_def chunk_text_def)
  next
    case (Inr t)
    then show ?thesis
      by (simp add: Cons survivors_def chunk_text_def)
  qed
qed

lemma map_filter_empty_iff:
  "List.map_filter f xs = [] \<longleftrightarrow> list_all (\<lambda>x. f x = None) xs"
  by (induction xs) (auto simp: List.map_filter_simps split: option.splits)

lemma transcribe_plan_closed:
  "transcribe_plan ev prefix sampling_rate params segs w =
     (batch_outcome ev prefix sampling_rate params (length (asr_log w)) (map samples segs),
      after_batch sampling_rate params (map samples segs) w)"
  by (simp add: transcribe_plan_def transcribe_chunks_closed batch_outcome_def after_batch_def
        survivors_def map_filter_empty_iff)

text \<open>
  C6. In a LONG or VERY_LONG transcription (at a positive sampling rate) every chunk of
  the plan is handed to the model once, in order. If every chunk fails to produce a
  result (its transcription raises, or is blank once stripped), the operation fails with
  the error "No successful chunk transcriptions", wrapped under the tier's prefix; if
  some chunks fail, the operation returns the reconciliation of the texts of the
  surviving chunks alone, in their original index order.
\<close>

theorem chunk_batch_failures:
  assumes "0 < sampling_rate"
  shows "(\<exists>segs. long_chunks audio_array sampling_rate = Some segs \<and>
            transcribe_long_audio ev audio_array sampling_rate w =
              Some (batch_outcome ev ''Long audio transcription failed: '' sampling_rate
                      short_params (length (asr_log w)) (map samples segs),
                    after_batch sampling_rate short_params (map samples segs) w)) \<and>
         (\<exists>segs. very_long_chunks audio_array sampling_rate = Some segs \<and>
            transcribe_very_long_audio ev audio_array sampling_rate w =
              Some (batch_outcome ev ''Very long audio transcription failed: '' sampling_rate
                      very_long_params (length (asr_log w)) (map samples segs),
                    after_batch sampling_rate very_long_params (map samples segs) w))"
proof
  have "2 * sampling_rate < 30 * sampling_rate" using assms by simp
  from chunk_loop_plan_ok[OF this, of audio_array]
  obtain segs where "long_chunks audio_array sampling_rate = Some segs"
    by (auto simp: long_chunks_def)
  then show "\<exists>segs. long_chunks audio_array sampling_rate = Some segs \<and>
            transcribe_long_audio ev audio_array sampling_rate w =
              Some (batch_outcome ev ''Long audio transcription failed: '' sampling_rate
                      short_params (length (asr_log w)) (map samples segs),
                    after_batch sampling_rate short_params (map samples segs) w)"
    by (simp add: transcribe_long_audio_def transcribe_plan_closed)
next
  have "1 * sampling_rate < 20 * sampling_rate" using assms by simp
  from chunk_loop_plan_ok[OF this, of audio_array]
  obtain segs where "very_long_chunks audio_array sampling_rate = Some segs"
    by (auto simp: very_long_chunks_def)
  then show "\<exists>segs. very_long_chunks audio_array sampling_rate = Some segs \<and>
            transcribe_very_long_audio ev audio_array sampling_rate w =
              Some (batch_outcome ev ''Very long audio transcription failed: '' sampling_rate
                      very_long_params (length (asr_log w)) (map samples segs),
                    after_batch sampling_rate very_long_params (map samples segs) w)"
    by (simp add: transcribe_very_long_audio_def transcribe_plan_closed)
qed

theorem chunk_batch_failures_witness:
  "(0::nat) < 1 \<and>
   transcribe_long_audio env_first_chunk_fails wave35 1 fresh_world =
     Some (Inr ''jumps over'',
           after_batch 1 short_params
             (map samples
                [\<lparr>seg_start = 0, seg_end = 30, samples = replicate 30 1\<rparr>,
                 \<lparr>seg_start = 28, seg_end = 35, samples = replicate 7 1 @ replicate 23 0\<rparr>])
             fresh_world) \<and>
   transcribe_long_audio quiet_env wave35 1 fresh_world =
     Some (Inl (HTTPException 500 [Lit ''Long audio transcription failed: '',
                                   StrOf (HTTPException 500 [Lit ''No successful chunk transcriptions''])]),
           after_batch 1 short_params
             (map samples
                [\<lparr>seg_start = 0, seg_end = 30, samples = replicate 30 1\<rparr>,
                 \<lparr>seg_start = 28, seg_end = 35, samples = replicate 7 1 @ replicate 23 0\<rparr>])
             fresh_world) \<and>
   transcribe_very_long_audio quiet_env wave35 1 fresh_world =
     Some (Inl (HTTPException 500 [Lit ''Very long audio transcription failed: '',
                                   StrOf (HTTPException 500 [Lit ''No successful chunk transcriptions''])]),
           after_batch 1 very_long_params
             (map samples
                [\<lparr>seg_start = 0, seg_end = 20, samples = replicate 20 1\<rparr>,
                 \<lparr>seg_start = 19, seg_end = 35, samples = replicate 16 1 @ replicate 4 0\<rparr>])
             fresh_world)"
proof -
  let ?L = "[\<lparr>seg_start = 0, seg_end = 30, samples = replicate 30 1\<rparr>,
             \<lparr>seg_start = 28, seg_end = 35, samples = replicate 7 1 @ replicate 23 0\<rparr>]"
  let ?V = "[\<lparr>seg_start = 0, seg_end = 20, samples = replicate 20 1\<rparr>,
             \<lparr>seg_start = 19, seg_end = 35, samples = replicate 16 1 @ replicate 4 0\<rparr>]"
  have pos: "(0::nat) < 1" by simp
  have l: "long_chunks wave35 1 = Some ?L"
    by (simp add: long_chunks_def wave35_def chunk_loop.simps chunk_end_def make_chunk_def
          py_slice_def pad_chunk_def)
  have v: "very_long_chunks wave35 1 = Some ?V"
    by (simp add: very_long_chunks_def wave35_def chunk_loop.simps chunk_end_def make_chunk_def
          py_slice_def pad_chunk_def)
  have k: "length (asr_log fresh_world) = 0" by (simp add: fresh_world_def)
  have o1: "batch_outcome env_first_chunk_fails ''Long audio transcription failed: '' 1
              short_params 0 (map samples ?L) = Inr ''jumps over''"
    by code_simp
  have o2: "batch_outcome quiet_env ''Long audio transcription failed: '' 1
              short_params 0 (map samples ?L) =
            Inl (HTTPException 500 [Lit ''Long audio transcription failed: '',
                   StrOf (HTTPException 500 [Lit ''No successful chunk transcriptions''])])"
    by code_simp
  have o3: "batch_outcome quiet_env ''Very long audio transcription failed: '' 1
              very_long_params 0 (map samples ?V) =
            Inl (HTTPException 500 [Lit ''Very long audio transcription failed: '',
                   StrOf (HTTPException 500 [Lit ''No successful chunk transcriptions''])])"
    by code_simp
  from chunk_batch_failures[OF pos, of wave35 env_first_chunk_fails fresh_world] l k o1
  have a: "transcribe_long_audio env_first_chunk_fails wave35 1 fresh_world =
     Some (Inr ''jumps over'', after_batch 1 short_params (map samples ?L) fresh_world)"
    by auto
  from chunk_batch_failures[OF pos, of wave35 quiet_env fresh_world] l v k o2 o3
  have b: "transcribe_long_audio quiet_env wave35 1 fresh_world =
     Some (Inl (HTTPException 500 [Lit ''Long audio transcription failed: '',
                   StrOf (HTTPException 500 [Lit ''No successful chunk transcriptions''])]),
           after_batch 1 short_params (map samples ?L) fresh_world)"
    and c: "transcribe_very_long_audio quiet_env wave35 1 fresh_world =
     Some (Inl (HTTPException 500 [Lit ''Very long audio transcription failed: '',
                   StrOf (HTTPException 500 [Lit ''No successful chunk transcriptions''])]),
           after_batch 1 very_long_params (map samples ?V) fresh_world)"
    by auto
  from pos a b c show ?thesis by blast
qed

lemma critical_http [simp]: "critical (HTTPException st d) = HTTPException st d"
  by (simp add: critical_def)

lemma batch_outcome_error:
  "batch_outcome ev prefix sampling_rate params k chunks = Inl e \<Longrightarrow> critical e = e"
  by (auto simp: batch_outcome_def split: if_splits)

lemma short_error:
  "transcribe_short_audio ev audio_array sampling_rate w = (Inl e, w') \<Longrightarrow> critical e = e"
  by (auto simp: transcribe_short_audio_def Let_def split: sum.splits)

lemma dispatch_error:
  "dispatch_by_duration ev audio_array sampling_rate w = Some (Inl e, w') \<Longrightarrow> critical e = e"
  by (auto simp: dispatch_by_duration_def Let_def transcribe_long_audio_def
        transcribe_very_long_audio_def transcribe_plan_closed
        dest: short_error batch_outcome_error split: if_splits option.splits)

lemma dispatch_is_run_tier:
  "dispatch_by_duration ev audio_array sampling_rate w =
     run_tier (tier_of (of_nat (length audio_array) / of_nat sampling_rate))
       ev audio_array sampling_rate w"
  by (simp add: dispatch_by_duration_def tier_of_def Let_def not_less)

lemma tier_of_length:
  "tier_of (of_nat n / 16000) =
     (if n \<le> 480000 then SHORT else if n \<le> 9600000 then LONG else VERY_LONG)"
proof -
  have a: "(of_nat n / 16000 \<le> (30::rat)) \<longleftrightarrow> n \<le> 480000"
  proof -
    have "(of_nat n / 16000 \<le> (30::rat)) \<longleftrightarrow> (of_nat n :: rat) \<le> of_nat 480000"
      by (simp add: pos_divide_le_eq)
    also have "\<dots> \<longleftrightarrow> n \<le> 480000" by (simp only: of_nat_le_iff)
    finally show ?thesis .
  qed
  have b: "(of_nat n / 16000 \<le> (600::rat)) \<longleftrightarrow> n \<le> 9600000"
  proof -
    have "(of_nat n / 16000 \<le> (600::rat)) \<longleftrightarrow> (of_nat n :: rat) \<le> of_nat 9600000"
      by (simp add: pos_divide_le_eq)
    also have "\<dots> \<longleftrightarrow> n \<le> 9600000" by (simp only: of_nat_le_iff)
    finally show ?thesis .
  qed
  show ?thesis by (simp add: tier_of_def a b)
qed

text \<open>
  C3. Once the upload has passed the size check, the model is loaded and the audio is
  decoded, the transcription that runs is the one of the tier of
  \<open>duration = len(waveform) / 16000\<close>, and of nothing else: SHORT when the duration is
  at most 30 s, LONG when it is above 30 s and at most 600 s, VERY_LONG above 600 s. Under
  the SHORT tier the model is called exactly once, on the whole waveform as it is (no
  chunking, no padding), and the result is its stripped text.
\<close>

theorem tier_is_function_of_duration:
  assumes "length (content audio_file) \<le> 100 * 1024 * 1024"
      and "load_whisper_model ev w = (Inr (), w1)"
      and "librosa_pipeline ev (content audio_file) = Inr audio_array"
  shows "transcribe_audio_file ev audio_file w =
           run_tier (tier_of (of_nat (length audio_array) / 16000)) ev audio_array 16000
             (w1\<lparr>preprocess_log := preprocess_log w1 @ [content audio_file]\<rparr>) \<and>
         tier_of (of_nat (length audio_array) / 16000) =
           (if length audio_array \<le> 30 * 16000 then SHORT
            else if length audio_array \<le> 600 * 16000 then LONG else VERY_LONG) \<and>
         run_tier SHORT ev audio_array 16000 w' =
           Some (case asr ev (length (asr_log w')) audio_array 16000 short_params of
                   Inl e \<Rightarrow> Inl (HTTPException 500 [Lit ''Short audio transcription failed: '', StrOf e])
                 | Inr t \<Rightarrow> Inr (py_strip t),
                 w'\<lparr>asr_log := asr_log w' @ [(audio_array, 16000, short_params)]\<rparr>)"
proof (intro conjI)
  let ?w2 = "w1\<lparr>preprocess_log := preprocess_log w1 @ [content audio_file]\<rparr>"
  have pre: "preprocess_audio ev (content audio_file) w1 = (Inr (audio_array, 16000), ?w2)"
    using assms(3) by (simp add: preprocess_audio_def)
  have size: "\<not> 100 * 1024 * 1024 < length (content audio_file)" using assms(1) by simp
  have "transcribe_audio_file ev audio_file w = dispatch_by_duration ev audio_array 16000 ?w2"
  proof (cases "dispatch_by_duration ev audio_array 16000 ?w2")
    case None
    then show ?thesis using size assms(2) pre
      by (simp add: transcribe_audio_file_def del: of_nat_numeral)
  next
    case (Some rw)
    obtain r w3 where rw: "rw = (r, w3)" by (cases rw)
    show ?thesis
    proof (cases r)
      case (Inl e)
      with Some rw have "critical e = e" by (auto dest: dispatch_error)
      then show ?thesis using size assms(2) pre Some rw Inl
        by (simp add: transcribe_audio_file_def)
    next
      case (Inr t)
      then show ?thesis using size assms(2) pre Some rw
        by (simp add: transcribe_audio_file_def)
    qed
  qed
  then show "transcribe_audio_file ev audio_file w =
           run_tier (tier_of (of_nat (length audio_array) / 16000)) ev audio_array 16000 ?w2"
    using dispatch_is_run_tier[of ev audio_array 16000 ?w2] by simp
  show "tier_of (of_nat (length audio_array) / 16000) =
           (if length audio_array \<le> 30 * 16000 then SHORT
            else if length audio_array \<le> 600 * 16000 then LONG else VERY_LONG)"
    using tier_of_length[of "length audio_array"] by simp
  show "run_tier SHORT ev audio_array 16000 w' =
           Some (case asr ev (length (asr_log w')) audio_array 16000 short_params of
                   Inl e \<Rightarrow> Inl (HTTPException 500 [Lit ''Short audio transcription failed: '', StrOf e])
                 | Inr t \<Rightarrow> Inr (py_strip t),
                 w'\<lparr>asr_log := asr_log w' @ [(audio_array, 16000, short_params)]\<rparr>)"
    by (simp add: transcribe_short_audio_def Let_def split: sum.splits)
qed

theorem tier_is_function_of_duration_witness:
  "length (content call_mp3) \<le> 100 * 1024 * 1024 \<and>
   load_whisper_model env_speech fresh_world = (Inr (), fresh_world\<lparr>whisper_loaded := True\<rparr>) \<and>
   librosa_pipeline env_speech (content call_mp3) = Inr (replicate 16000 1) \<and>
   tier_of (of_nat (length (replicate 16000 (1::rat))) / 16000) = SHORT \<and>
   transcribe_audio_file env_speech call_mp3 fresh_world =
     Some (Inr ''how do I register for GST'',
           fresh_world\<lparr>whisper_loaded := True, preprocess_log := [''ID3''],
                         asr_log := [(replicate 16000 1, 16000, short_params)]\<rparr>)"
proof -
  have a: "length (content call_mp3) \<le> 100 * 1024 * 1024" by (simp add: call_mp3_def)
  have b: "load_whisper_model env_speech fresh_world = (Inr (), fresh_world\<lparr>whisper_loaded := True\<rparr>)"
    by (simp add: load_whisper_model_def sample_defs)
  have c: "librosa_pipeline env_speech (content call_mp3) = Inr (replicate 16000 1)"
    by (simp add: sample_defs)
  note t = tier_is_function_of_duration[OF a b c,
      of "fresh_world\<lparr>whisper_loaded := True, preprocess_log := [''ID3'']\<rparr>"]
  from t have tier: "tier_of (of_nat (length (replicate 16000 (1::rat))) / 16000) = SHORT"
    by simp
  have s: "py_strip '' how do I register for GST '' = ''how do I register for GST''"
    by code_simp
  have w2: "fresh_world\<lparr>whisper_loaded := True,
               preprocess_log := preprocess_log (fresh_world\<lparr>whisper_loaded := True\<rparr>) @ [content call_mp3]\<rparr>
            = fresh_world\<lparr>whisper_loaded := True, preprocess_log := [''ID3'']\<rparr>"
    by (simp add: sample_defs)
  have call: "asr env_speech k (replicate 16000 1) 16000 short_params = Inr '' how do I register for GST ''" for k
    by (simp add: sample_defs)
  from t tier have "transcribe_audio_file env_speech call_mp3 fresh_world =
      run_tier SHORT env_speech (replicate 16000 1) 16000
        (fresh_world\<lparr>whisper_loaded := True, preprocess_log := [''ID3'']\<rparr>)"
    using w2 by simp
  also from t have "\<dots> = Some (Inr ''how do I register for GST'',
           fresh_world\<lparr>whisper_loaded := True, preprocess_log := [''ID3''],
                         asr_log := [(replicate 16000 1, 16000, short_params)]\<rparr>)"
    using call s by (simp add: fresh_world_def)
  finally show ?thesis using a b c tier by blast
qed

section \<open>Properties of the endpoints\<close>

lemma py_lower_append: "py_lower (a @ b) = py_lower a @ py_lower b"
  by (simp add: py_lower_def)

lemma py_lower_drop: "py_lower (drop n s) = drop n (py_lower s)"
  by (simp add: py_lower_def drop_map)

lemma py_lower_length: "length (py_lower s) = length s"
  by (simp add: py_lower_def)

lemma py_endswith_append: "py_endswith (stem @ suffix) suffix"
  by (simp add: py_endswith_def)

lemma not_mp3_name:
  "(\<forall>stem ext. name = stem @ ext \<longrightarrow> py_lower ext \<noteq> ''.mp3'')
     \<longleftrightarrow> \<not> py_endswith (py_lower name) ''.mp3''"
proof
  assume h: "\<forall>stem ext. name = stem @ ext \<longrightarrow> py_lower ext \<noteq> ''.mp3''"
  show "\<not> py_endswith (py_lower name) ''.mp3''"
  proof
    assume e: "py_endswith (py_lower name) ''.mp3''"
    define n where "n = length (py_lower name) - length ''.mp3''"
    from e have d: "drop n (py_lower name) = ''.mp3''"
      unfolding py_endswith_def n_def by (rule conjunct2)
    have "name = take n name @ drop n name" by (rule append_take_drop_id[symmetric])
    moreover have "py_lower (drop n name) = ''.mp3''"
      using d by (simp only: py_lower_drop)
    ultimately show False using h by blast
  qed
next
  assume n: "\<not> py_endswith (py_lower name) ''.mp3''"
  show "\<forall>stem ext. name = stem @ ext \<longrightarrow> py_lower ext \<noteq> ''.mp3''"
  proof (intro allI impI notI)
    fix stem ext
    assume a: "name = stem @ ext" and b: "py_lower ext = ''.mp3''"
    have "py_lower name = py_lower stem @ ''.mp3''"
      unfolding a py_lower_append b by (rule refl)
    then have "py_endswith (py_lower name) ''.mp3''"
      by (simp only: py_endswith_append)
    with n show False by (rule notE)
  qed
qed

text \<open>
  C10. For every upload to the transcription or to the full-analysis endpoint whose
  filename does not end, case-insensitively, in ".mp3" (no split of the name into a stem
  and an ending has an ending that lowers to ".mp3"), the endpoint fails with status 400,
  "Only MP3 files are supported", and the state is left as it was: the file's size has
  not been looked at, nothing has been decoded, no model has been loaded or called and no
  remote call has been made.
\<close>

theorem non_mp3_rejected_first:
  assumes "\<forall>stem ext. filename file = stem @ ext \<longrightarrow> py_lower ext \<noteq> ''.mp3''"
  shows "transcribe_audio_endpoint ev file w =
           Some (Inl (HTTPException 400 [Lit ''Only MP3 files are supported'']), w) \<and>
         full_analysis_endpoint ev file w =
           Some (Inl (HTTPException 400 [Lit ''Only MP3 files are supported'']), w)"
proof -
  have "\<not> py_endswith (py_lower (filename file)) ''.mp3''"
    using assms not_mp3_name[of "filename file"] by blast
  then show ?thesis
    by (simp add: transcribe_audio_endpoint_def full_analysis_endpoint_def not_mp3_def)
qed

theorem non_mp3_rejected_first_witness:
  "\<not> py_endswith (py_lower (filename notes_txt)) ''.mp3'' \<and>
   transcribe_audio_endpoint env_speech notes_txt fresh_world =
     Some (Inl (HTTPException 400 [Lit ''Only MP3 files are supported'']), fresh_world) \<and>
   \<not> py_endswith (py_lower (filename big_wav)) ''.mp3'' \<and>
   100 * 1024 * 1024 < length (content big_wav) \<and>
   full_analysis_endpoint env_speech big_wav fresh_world =
     Some (Inl (HTTPException 400 [Lit ''Only MP3 files are supported'']), fresh_world) \<and>
   py_endswith (py_lower (filename call_mp3)) ''.mp3''"
proof -
  have n1: "\<not> py_endswith (py_lower (filename notes_txt)) ''.mp3''"
    and n2: "\<not> py_endswith (py_lower (filename big_wav)) ''.mp3''"
    and y: "py_endswith (py_lower (filename call_mp3)) ''.mp3''"
  proof -
    have f: "filename notes_txt = ''notes.txt''" "filename big_wav = ''talk.wav''"
      "filename call_mp3 = ''Call.MP3''"
      by (simp_all add: sample_defs)
    show "\<not> py_endswith (py_lower (filename notes_txt)) ''.mp3''" unfolding f by code_simp
    show "\<not> py_endswith (py_lower (filename big_wav)) ''.mp3''" unfolding f by code_simp
    show "py_endswith (py_lower (filename call_mp3)) ''.mp3''" unfolding f by code_simp
  qed
  have big: "100 * 1024 * 1024 < length (content big_wav)" by (simp add: big_wav_def)
  from n1 have h1: "\<forall>stem ext. filename notes_txt = stem @ ext \<longrightarrow> py_lower ext \<noteq> ''.mp3''"
    using not_mp3_name[of "filename notes_txt"] by blast
  from n2 have h2: "\<forall>stem ext. filename big_wav = stem @ ext \<longrightarrow> py_lower ext \<noteq> ''.mp3''"
    using not_mp3_name[of "filename big_wav"] by blast
  from non_mp3_rejected_first[OF h1, of env_speech fresh_world]
       non_mp3_rejected_first[OF h2, of env_speech fresh_world] n1 n2 y big
  show ?thesis by blast
qed

text \<open>Transcription makes no remote call.\<close>

lemma dispatch_remote_logs:
  assumes "dispatch_by_duration ev audio_array sampling_rate w = Some (r, w')"
  shows "wx_log w' = wx_log w \<and> iam_log w' = iam_log w"
proof -
  have s: "wx_log (snd (transcribe_short_audio ev audio_array sampling_rate w)) = wx_log w \<and>
           iam_log (snd (transcribe_short_audio ev audio_array sampling_rate w)) = iam_log w"
    by (simp add: transcribe_short_audio_def Let_def split: sum.splits)
  have b: "wx_log (after_batch sampling_rate params chunks w) = wx_log w \<and>
           iam_log (after_batch sampling_rate params chunks w) = iam_log w" for params chunks
    by (simp add: after_batch_def)
  show ?thesis
  proof (cases "600 < (of_nat (length audio_array) :: rat) / of_nat sampling_rate")
    case True
    then have "transcribe_very_long_audio ev audio_array sampling_rate w = Some (r, w')"
      using assms by (simp add: dispatch_by_duration_def Let_def)
    then show ?thesis using b
      by (auto simp: transcribe_very_long_audio_def transcribe_plan_closed split: option.splits)
  next
    case False
    show ?thesis
    proof (cases "30 < (of_nat (length audio_array) :: rat) / of_nat sampling_rate")
      case True
      then have "transcribe_long_audio ev audio_array sampling_rate w = Some (r, w')"
        using assms False by (simp add: dispatch_by_duration_def Let_def)
      then show ?thesis using b
        by (auto simp: transcribe_long_audio_def transcribe_plan_closed split: option.splits)
    next
      case F2: False
      then have "transcribe_short_audio ev audio_array sampling_rate w = (r, w')"
        using assms False by (simp add: dispatch_by_duration_def Let_def)
      then show ?thesis using s by simp
    qed
  qed
qed

lemma transcribe_audio_file_remote_logs:
  assumes "transcribe_audio_file ev audio_file w = Some (r, w')"
  shows "wx_log w' = wx_log w \<and> iam_log w' = iam_log w"
proof (cases "100 * 1024 * 1024 < length (content audio_file)")
  case True
  then show ?thesis using assms by (simp add: transcribe_audio_file_def)
next
  case False
  obtain r1 w1 where l: "load_whisper_model ev w = (r1, w1)"
    by (cases "load_whisper_model ev w")
  have w1: "wx_log w1 = wx_log w \<and> iam_log w1 = iam_log w"
    using l by (auto simp: load_whisper_model_def split: if_splits option.splits)
  show ?thesis
  proof (cases r1)
    case (Inl e)
    then show ?thesis using assms False l w1 by (auto simp: transcribe_audio_file_def)
  next
    case (Inr u)
    obtain r2 w2 where p: "preprocess_audio ev (content audio_file) w1 = (r2, w2)"
      by (cases "preprocess_audio ev (content audio_file) w1")
    have w2: "wx_log w2 = wx_log w1 \<and> iam_log w2 = iam_log w1"
      using p by (auto simp: preprocess_audio_def Let_def split: sum.splits)
    show ?thesis
    proof (cases r2)
      case (Inl e)
      then show ?thesis using assms False l Inr p w1 w2 by (auto simp: transcribe_audio_file_def)
    next
      case I2: (Inr ar)
      obtain a sr where ar: "ar = (a, sr)" by (cases ar)
      from assms False l Inr p I2 ar
      obtain r3 where "dispatch_by_duration ev a sr w2 = Some (r3, w')"
        by (auto simp: transcribe_audio_file_def split: option.splits sum.splits)
      from dispatch_remote_logs[OF this] w1 w2 show ?thesis by simp
    qed
  qed
qed

lemma transcribe_audio_file_error:
  assumes "transcribe_audio_file ev audio_file w = Some (Inl e, w')"
  shows "\<exists>st d. e = HTTPException st d"
proof -
  have c: "\<exists>st d. critical x = HTTPException st d" for x
    by (cases x) (simp_all add: critical_def)
  from assms show ?thesis using c
    by (auto simp: transcribe_audio_file_def
             split: if_splits prod.splits sum.splits option.splits)
qed

text \<open>Every chat call a request makes carries the request's payload.\<close>

lemma watsonx_attempt_posts:
  "\<exists>new. wx_log (snd (watsonx_attempt ev pl api_key max_retries attempt w)) = wx_log w @ new \<and>
         list_all (\<lambda>c. snd c = pl) new"
proof (cases "get_access_token ev api_key (0 < attempt) w")
  case (Pair r w1)
  have w1: "wx_log w1 = wx_log w"
    using get_access_token_wx_log[of ev api_key "0 < attempt" w] Pair by simp
  show ?thesis
  proof (cases r)
    case (Inl e)
    then have "wx_log (snd (watsonx_attempt ev pl api_key max_retries attempt w)) = wx_log w @ []"
      using Pair w1 by (simp add: watsonx_attempt_def)
    then show ?thesis by (intro exI[of _ "[]"]) simp
  next
    case (Inr tok)
    show ?thesis
    proof (cases "truthy tok")
      case False
      then have "wx_log (snd (watsonx_attempt ev pl api_key max_retries attempt w)) = wx_log w @ []"
        using Pair Inr w1 by (simp add: watsonx_attempt_def)
      then show ?thesis by (intro exI[of _ "[]"]) simp
    next
      case True
      then have "wx_log (snd (watsonx_attempt ev pl api_key max_retries attempt w))
                   = wx_log w @ [(tok, pl)]"
        using Pair Inr w1
        by (auto simp: watsonx_attempt_def Let_def on_request_exception_def
                 split: http_reply.splits sum.splits)
      then show ?thesis by (intro exI[of _ "[(tok, pl)]"]) simp
    qed
  qed
qed

lemma watsonx_loop_posts:
  "\<exists>new. wx_log (snd (watsonx_loop ev pl api_key max_retries attempt w)) = wx_log w @ new \<and>
         list_all (\<lambda>c. snd c = pl) new"
proof (induction ev pl api_key max_retries attempt w rule: watsonx_loop.induct)
  case (1 ev pl api_key max_retries attempt w)
  show ?case
  proof (cases "attempt < max_retries + 1")
    case False
    then have "wx_log (snd (watsonx_loop ev pl api_key max_retries attempt w)) = wx_log w @ []"
      by (subst watsonx_loop.simps) simp
    then show ?thesis by (intro exI[of _ "[]"]) simp
  next
    case True
    obtain c w' where a: "watsonx_attempt ev pl api_key max_retries attempt w = (c, w')"
      by (cases "watsonx_attempt ev pl api_key max_retries attempt w")
    from watsonx_attempt_posts[of ev pl api_key max_retries attempt w] a
    obtain n1 where n1: "wx_log w' = wx_log w @ n1" "list_all (\<lambda>c. snd c = pl) n1"
      by auto
    show ?thesis
    proof (cases c)
      case (Finished r)
      then have "watsonx_loop ev pl api_key max_retries attempt w = (r, w')"
        using True a by (subst watsonx_loop.simps) simp
      then show ?thesis using n1 by auto
    next
      case NextAttempt
      then have eq: "watsonx_loop ev pl api_key max_retries attempt w =
                 watsonx_loop ev pl api_key max_retries (attempt + 1) w'"
        using True a by (subst watsonx_loop.simps) simp
      from "1.IH"[OF True a[symmetric] NextAttempt]
      obtain n2 where n2:
        "wx_log (snd (watsonx_loop ev pl api_key max_retries (attempt + 1) w')) = wx_log w' @ n2"
        "list_all (\<lambda>c. snd c = pl) n2"
        by auto
      have "wx_log (snd (watsonx_loop ev pl api_key max_retries attempt w)) = wx_log w @ (n1 @ n2)"
        using eq n1(1) n2(1) by simp
      moreover have "list_all (\<lambda>c. snd c = pl) (n1 @ n2)" using n1(2) n2(2) by simp
      ultimately show ?thesis by blast
    qed
  qed
qed

lemma recognize_intent_posts:
  assumes "recognize_intent_endpoint ev text_content w = (r, w')"
  shows "\<exists>new. wx_log w' = wx_log w @ new \<and> list_all is_intent_call new"
proof -
  let ?pl = "\<lparr> messages = IntentPrompt text_content, max_new_tokens = 100,
               model_id = getenv_str (MODEL_ID ev), project_id = getenv_str (PROJECT_ID ev) \<rparr>"
  have imp: "list_all (\<lambda>c. snd c = ?pl) new \<Longrightarrow> list_all is_intent_call new" for new
    by (induction new) auto
  from watsonx_loop_posts[of ev ?pl "getenv_str (API_KEY ev)" 2 0 w]
  obtain new where n:
    "wx_log (snd (make_watsonx_request ev ?pl (getenv_str (API_KEY ev)) 2 w)) = wx_log w @ new"
    "list_all (\<lambda>c. snd c = ?pl) new"
    by (auto simp: make_watsonx_request_def)
  have "wx_log w' = wx_log w @ [] \<or> wx_log w' = wx_log w @ new"
    using assms n(1)
    by (auto simp: recognize_intent_endpoint_def
             split: if_splits prod.splits sum.splits)
  then show ?thesis using imp[OF n(2)] by (elim disjE) (intro exI[of _ "[]"], simp, blast)
qed

lemma recognize_intent_error:
  assumes "recognize_intent_endpoint ev text_content w = (Inl e, w')"
  shows "\<exists>st d. e = HTTPException st d"
proof -
  have c: "\<exists>st d. reraise p x = HTTPException st d" for p x
    by (cases x) simp_all
  from assms show ?thesis using c[of "''Intent recognition failed: ''"]
    by (auto simp: recognize_intent_endpoint_def missing_env_def
             split: if_splits prod.splits sum.splits)
qed

lemma intent_not_resolution:
  "list_all is_intent_call new \<Longrightarrow> \<not> list_ex is_resolution_call new"
  by (induction new) (auto split: prompt.splits)

text \<open>The sample runs of the pipeline, evaluated.\<close>

lemma sample_decode_failure: "transcribe_audio_file quiet_env call_mp3 fresh_world =
   Some (Inl (HTTPException 500 [Lit ''Error preprocessing audio: '', StrOf (PyException ''NoBackendError'')]),
         decoded_world)"
  by (simp add: transcribe_audio_file_def load_whisper_model_def preprocess_audio_def
        critical_def sample_defs)

lemma strip_gst: "py_strip '' how do I register for GST '' = ''how do I register for GST''"
  by code_simp
lemma sample_clip_transcribed: "transcribe_audio_file env_speech_broken call_mp3 fresh_world =
   Some (Inr ''how do I register for GST'', heard_world)"
  by (simp add: transcribe_audio_file_def load_whisper_model_def preprocess_audio_def
        dispatch_by_duration_def transcribe_short_audio_def strip_gst sample_defs Let_def)

lemma sample_intent_rejected: "recognize_intent_endpoint env_speech_broken ''how do I register for GST'' heard_world =
   (Inl (HTTPException 500 [Lit ''WatsonX API Error: '', Lit ''boom'']),
    heard_world\<lparr>time_reads := 1, iam_log := [''key''], token := JStr ''tok'', expiry := 4300,
      wx_log := [(JStr ''tok'', intent_payload)]\<rparr>)"
  by (simp add: recognize_intent_endpoint_def make_watsonx_request_def watsonx_loop_unfold
        watsonx_attempt_def get_access_token_def dict_get_def Let_def sample_defs)

text \<open>
  C8. In the full-analysis pipeline (an MP3 upload, the API key configured): if the
  transcription fails, the endpoint fails with that error and no chat call and no
  credential exchange has been made, so neither the intent call nor the resolution call is
  attempted; if the intent recognition fails, the endpoint fails with that error and every
  chat call made carries the intent prompt, so the resolution call is never attempted.
\<close>

theorem full_analysis_short_circuits:
  assumes "py_endswith (py_lower (filename file)) ''.mp3''"
      and "configured (API_KEY ev)"
  shows "(\<forall>e w1. transcribe_audio_file ev file w = Some (Inl e, w1) \<longrightarrow>
            full_analysis_endpoint ev file w = Some (Inl e, w1) \<and>
            wx_log w1 = wx_log w \<and> iam_log w1 = iam_log w) \<and>
         (\<forall>t w1 e w2.
            transcribe_audio_file ev file w = Some (Inr t, w1) \<and>
            recognize_intent_endpoint ev t w1 = (Inl e, w2) \<longrightarrow>
            full_analysis_endpoint ev file w = Some (Inl e, w2) \<and>
            (\<exists>new. wx_log w2 = wx_log w @ new \<and> list_all is_intent_call new \<and>
                   \<not> list_ex is_resolution_call new))"
proof (intro conjI allI impI)
  fix e w1
  assume t: "transcribe_audio_file ev file w = Some (Inl e, w1)"
  from transcribe_audio_file_error[OF t] have "full_failed e = e"
    by (auto simp: full_failed_def)
  then show "full_analysis_endpoint ev file w = Some (Inl e, w1)"
    using assms t by (simp add: full_analysis_endpoint_def)
  from transcribe_audio_file_remote_logs[OF t]
  show "wx_log w1 = wx_log w" and "iam_log w1 = iam_log w" by simp_all
next
  fix t w1 e w2
  assume h: "transcribe_audio_file ev file w = Some (Inr t, w1) \<and>
             recognize_intent_endpoint ev t w1 = (Inl e, w2)"
  then have tr: "transcribe_audio_file ev file w = Some (Inr t, w1)"
    and ri: "recognize_intent_endpoint ev t w1 = (Inl e, w2)" by simp_all
  from recognize_intent_error[OF ri] have "full_failed e = e"
    by (auto simp: full_failed_def)
  then show "full_analysis_endpoint ev file w = Some (Inl e, w2)"
    using assms tr ri by (simp add: full_analysis_endpoint_def)
  from recognize_intent_posts[OF ri] obtain new where
    n: "wx_log w2 = wx_log w1 @ new" "list_all is_intent_call new" by blast
  from transcribe_audio_file_remote_logs[OF tr] have "wx_log w1 = wx_log w" by simp
  with n intent_not_resolution[OF n(2)]
  show "\<exists>new. wx_log w2 = wx_log w @ new \<and> list_all is_intent_call new \<and>
              \<not> list_ex is_resolution_call new" by auto
qed

theorem full_analysis_short_circuits_witness:
  "py_endswith (py_lower (filename call_mp3)) ''.mp3'' \<and>
   configured (API_KEY quiet_env) \<and> configured (API_KEY env_speech_broken) \<and>
   transcribe_audio_file quiet_env call_mp3 fresh_world =
     Some (Inl (HTTPException 500 [Lit ''Error preprocessing audio: '',
                                   StrOf (PyException ''NoBackendError'')]), decoded_world) \<and>
   full_analysis_endpoint quiet_env call_mp3 fresh_world =
     Some (Inl (HTTPException 500 [Lit ''Error preprocessing audio: '',
                                   StrOf (PyException ''NoBackendError'')]), decoded_world) \<and>
   wx_log decoded_world = wx_log fresh_world \<and> iam_log decoded_world = iam_log fresh_world \<and>
   transcribe_audio_file env_speech_broken call_mp3 fresh_world =
     Some (Inr ''how do I register for GST'', heard_world) \<and>
   full_analysis_endpoint env_speech_broken call_mp3 fresh_world =
     Some (Inl (HTTPException 500 [Lit ''WatsonX API Error: '', Lit ''boom'']),
           heard_world\<lparr>time_reads := 1, iam_log := [''key''], token := JStr ''tok'',
             expiry := 4300, wx_log := [(JStr ''tok'', intent_payload)]\<rparr>) \<and>
   is_intent_call (JStr ''tok'', intent_payload)"
proof -
  have f: "filename call_mp3 = ''Call.MP3''" by (simp add: call_mp3_def)
  have m: "py_endswith (py_lower (filename call_mp3)) ''.mp3''" unfolding f by code_simp
  have k1: "configured (API_KEY quiet_env)" and k2: "configured (API_KEY env_speech_broken)"
    by (simp_all add: sample_defs)
  note a = full_analysis_short_circuits[OF m k1, of fresh_world]
  note b = full_analysis_short_circuits[OF m k2, of fresh_world]
  from a sample_decode_failure have a1: "full_analysis_endpoint quiet_env call_mp3 fresh_world =
     Some (Inl (HTTPException 500 [Lit ''Error preprocessing audio: '',
                                   StrOf (PyException ''NoBackendError'')]), decoded_world)"
    and a2: "wx_log decoded_world = wx_log fresh_world"
    and a3: "iam_log decoded_world = iam_log fresh_world"
    by blast+
  from b sample_clip_transcribed sample_intent_rejected have b1: "full_analysis_endpoint env_speech_broken call_mp3 fresh_world =
     Some (Inl (HTTPException 500 [Lit ''WatsonX API Error: '', Lit ''boom'']),
           heard_world\<lparr>time_reads := 1, iam_log := [''key''], token := JStr ''tok'',
             expiry := 4300, wx_log := [(JStr ''tok'', intent_payload)]\<rparr>)"
    by blast
  have i: "is_intent_call (JStr ''tok'', intent_payload)" by (simp add: intent_payload_def)
  from m k1 k2 sample_decode_failure a1 a2 a3 sample_clip_transcribed b1 i show ?thesis by blast
qed

end
